theory Spec2Isabelle
  imports Complex_Main
begin

section \<open>JavaScript strings and values\<close>

text \<open>
  A string is the list of its code units, and a code unit is a \<open>char\<close>: the strings here
  are those over U+0000 to U+00FF. On them \<open>toLowerCase\<close> moves the 26 letters and the
  capitals U+00C0 to U+00DE (the sign U+00D7 apart), and the class \<open>\s\<close>, which is also
  what \<open>trim\<close> removes, is space, tab, line feed, vertical tab, form feed, carriage
  return and the no-break space U+00A0. \<open>toUpperCase\<close> is the inverse move, and writes
  \<open>SS\<close> for the sharp s U+00DF; the capitals of U+00B5 and U+00FF lie outside the range,
  and a text with one of these two is outside what \<open>toUpperCase\<close> describes here. A
  JavaScript value that may be \<open>null\<close> or \<open>undefined\<close> is an \<open>option\<close>; \<open>truthy\<close> is the
  test that \<open>if (x)\<close>, \<open>!x\<close> and \<open>x || y\<close> perform on such a value.
\<close>

definition toLowerChar :: "char \<Rightarrow> char" where
  "toLowerChar c =
     (let n = (of_char c :: int)
      in if (65 \<le> n \<and> n \<le> 90) \<or> (192 \<le> n \<and> n \<le> 222 \<and> n \<noteq> 215) then char_of (n + 32)
         else c)"

definition toUpperChar :: "char \<Rightarrow> char" where
  "toUpperChar c =
     (let n = (of_char c :: int)
      in if (97 \<le> n \<and> n \<le> 122) \<or> (224 \<le> n \<and> n \<le> 254 \<and> n \<noteq> 247) then char_of (n - 32)
         else c)"

definition toLowerCase :: "string \<Rightarrow> string" where
  "toLowerCase s = map toLowerChar s"

definition toUpperCase :: "string \<Rightarrow> string" where
  "toUpperCase s =
     concat (map (\<lambda>c. if (of_char c :: int) = 223 then ''SS'' else [toUpperChar c]) s)"

definition is_space :: "char \<Rightarrow> bool" where
  "is_space c = ((of_char c :: int) \<in> {32, 9, 10, 11, 12, 13, 160})"

definition is_az :: "char \<Rightarrow> bool" where
  "is_az c = (let n = (of_char c :: int) in 97 \<le> n \<and> n \<le> 122)"

definition is_AZ :: "char \<Rightarrow> bool" where
  "is_AZ c = (let n = (of_char c :: int) in 65 \<le> n \<and> n \<le> 90)"

definition is_digit :: "char \<Rightarrow> bool" where
  "is_digit c = (let n = (of_char c :: int) in 48 \<le> n \<and> n \<le> 57)"

text \<open>The class \<open>\w\<close> of the regular expressions: letters, digits and the underscore.\<close>

definition is_word_char :: "char \<Rightarrow> bool" where
  "is_word_char c = (is_az c \<or> is_AZ c \<or> is_digit c \<or> c = CHR ''_'')"

definition trim :: "string \<Rightarrow> string" where
  "trim s = rev (dropWhile is_space (rev (dropWhile is_space s)))"

text \<open>\<open>s.startsWith(p)\<close> and \<open>s.includes(p)\<close>.\<close>

fun startsWith :: "string \<Rightarrow> string \<Rightarrow> bool" where
  "startsWith s [] = True"
| "startsWith [] (p # ps) = False"
| "startsWith (c # cs) (p # ps) = (c = p \<and> startsWith cs ps)"

fun includes_str :: "string \<Rightarrow> string \<Rightarrow> bool" where
  "includes_str [] p = (p = [])"
| "includes_str (c # cs) p = (startsWith (c # cs) p \<or> includes_str cs p)"

text \<open>
  \<open>s.split(d)\<close> for a one-character separator, and \<open>s.split(/\s+/)\<close>. Both keep the
  empty pieces JavaScript keeps: the empty string splits into one empty piece, and
  leading or trailing whitespace gives an empty first or last piece.
\<close>

fun split_on :: "char \<Rightarrow> string \<Rightarrow> string list" where
  "split_on d [] = [[]]"
| "split_on d (c # cs) =
     (if c = d then [] # split_on d cs
      else (case split_on d cs of [] \<Rightarrow> [[c]] | w # ws \<Rightarrow> (c # w) # ws))"

fun split_ws :: "string \<Rightarrow> string list" where
  "split_ws [] = [[]]"
| "split_ws (c # cs) =
     (if is_space c then
        (if cs \<noteq> [] \<and> is_space (hd cs) then split_ws cs else [] # split_ws cs)
      else (case split_ws cs of [] \<Rightarrow> [[c]] | w # ws \<Rightarrow> (c # w) # ws))"

text \<open>\<open>xs.join(sep)\<close>.\<close>

fun join :: "string \<Rightarrow> string list \<Rightarrow> string" where
  "join sep [] = []"
| "join sep [x] = x"
| "join sep (x # y # ys) = x @ sep @ join sep (y # ys)"

definition truthy :: "string option \<Rightarrow> bool" where
  "truthy v = (case v of None \<Rightarrow> False | Some s \<Rightarrow> s \<noteq> [])"

text \<open>\<open>a || b\<close> on two nullable strings, and \<open>a || 'literal'\<close>.\<close>

definition or_else :: "string option \<Rightarrow> string option \<Rightarrow> string option" where
  "or_else a b = (if truthy a then a else b)"

definition or_str :: "string option \<Rightarrow> string \<Rightarrow> string" where
  "or_str a d = (case a of None \<Rightarrow> d | Some s \<Rightarrow> if s = [] then d else s)"

text \<open>Decimal rendering of a number inside a template string.\<close>

fun digits_of :: "nat \<Rightarrow> nat \<Rightarrow> string" where
  "digits_of 0 n = []"
| "digits_of (Suc fuel) n =
     (if n < 10 then [char_of (48 + n)]
      else digits_of fuel (n div 10) @ [char_of (48 + n mod 10)])"

definition show_nat :: "nat \<Rightarrow> string" where
  "show_nat n = digits_of (Suc n) n"

section \<open>Helpers (utils/helpers)\<close>

subsection \<open>generateCaseNumber\<close>

text \<open>
  \<open>generateCaseNumber\<close> reads the clock and the random generator. Both are inputs here:
  \<open>year\<close> is \<open>new Date().getFullYear()\<close> and \<open>random36\<close> is the text
  \<open>Math.random().toString(36)\<close>, that is \<open>"0"\<close> or \<open>"0."\<close> followed by the base-36 digits
  of the number drawn.
\<close>

definition substring :: "nat \<Rightarrow> nat \<Rightarrow> string \<Rightarrow> string" where
  "substring i j s = take (j - i) (drop i s)"

definition generateCaseNumber :: "nat \<Rightarrow> string \<Rightarrow> string" where
  "generateCaseNumber year random36 =
     (let random = toUpperCase (substring 2 7 random36)
      in ''CASE-'' @ show_nat year @ ''-'' @ random)"

text \<open>The pattern \<open>/^CASE-\d{4}-[A-Z0-9]{5}$/\<close> of the test suite.\<close>

definition matches_case_pattern :: "string \<Rightarrow> bool" where
  "matches_case_pattern s =
     (length s = 15 \<and> take 5 s = ''CASE-'' \<and> list_all is_digit (take 4 (drop 5 s))
      \<and> take 1 (drop 9 s) = ''-''
      \<and> list_all (\<lambda>c. is_AZ c \<or> is_digit c) (drop 10 s))"

subsection \<open>isRealEmail\<close>

definition fakeDomains :: "string list" where
  "fakeDomains =
     [''example.com'', ''example.org'', ''example.net'',
      ''test.com'', ''test.org'', ''test.net'',
      ''fake.com'', ''fake.org'',
      ''dummy.com'', ''dummy.org'',
      ''sample.com'', ''sample.org'',
      ''placeholder.com'', ''placeholder.org'',
      ''mailinator.com'', ''tempmail.com'',
      ''localhost'', ''localhost.com'',
      ''abc.com'', ''xyz.com'', ''aaa.com'',
      ''email.com'', ''mail.com'']"

definition fakeLocalParts :: "string list" where
  "fakeLocalParts =
     [''test'', ''demo'', ''fake'', ''dummy'', ''sample'', ''placeholder'',
      ''user'', ''admin'', ''info'', ''contact'', ''noreply'', ''no-reply'',
      ''asdf'', ''qwerty'', ''abcd'', ''xyz'', ''abc'', ''aaa'', ''bbb'']"

text \<open>The test \<open>/^[a-z]{1,3}@/\<close>: one to three lower-case letters, then the at sign.\<close>

definition short_local_part :: "string \<Rightarrow> bool" where
  "short_local_part s =
     (let l = takeWhile is_az s
      in 1 \<le> length l \<and> length l \<le> 3 \<and> take 1 (drop (length l) s) = ''@'')"

definition isRealEmail :: "string option \<Rightarrow> bool" where
  "isRealEmail email0 =
     (case email0 of
        None \<Rightarrow> False
      | Some raw \<Rightarrow>
          if raw = [] then False
          else
            let email = toLowerCase (trim raw) in
            if \<not> includes_str email ''@'' \<or> \<not> includes_str email ''.'' then False
            else
              (case split_on CHR ''@'' email of
                 [localPart, domain] \<Rightarrow>
                   if localPart = [] \<or> domain = [] then False
                   else if domain \<in> set fakeDomains then False
                   else if localPart \<in> set fakeLocalParts then False
                   else if short_local_part email then False
                   else True
               | _ \<Rightarrow> False))"

section \<open>Actor context and client email resolution (WorkflowOrchestrator)\<close>

record user =
  user_id :: string
  user_role :: string
  user_name :: string
  user_email :: "string option"
  user_junior_name :: "string option"
  user_junior_email :: "string option"
  auto_assign_to_junior :: bool

text \<open>
  The class body declares \<open>resolveClientEmail\<close> twice. Each is modelled with what it
  returns and with the line it logs (level and message), which is where the two differ.
  \<open>demo\<close> is \<open>process.env.DEMO_USER_EMAIL\<close>. The second declaration is the one the class
  ends up with.
\<close>

definition resolveClientEmail_first ::
  "user \<Rightarrow> string option \<Rightarrow> string option \<Rightarrow> string \<Rightarrow> string option \<times> (string \<times> string)"
where
  "resolveClientEmail_first u demo email context =
     (let defaultEmail = or_else (user_email u) demo in
      if \<not> truthy email then
        (if truthy defaultEmail
         then (defaultEmail, (''info'', ''Email: No client email, using default for '' @ context))
         else (None, (''warn'', ''Email: No client email and no default configured for '' @ context)))
      else if isRealEmail email
        then (email, (''info'', ''Email: Using client email for '' @ context))
      else if truthy defaultEmail
        then (defaultEmail,
              (''info'', ''Email: Client email is dummy/test, using default for '' @ context))
      else (None, (''warn'', ''Email: Client email is dummy and no default for '' @ context)))"

definition resolveClientEmail ::
  "user \<Rightarrow> string option \<Rightarrow> string option \<Rightarrow> string \<Rightarrow> string option \<times> (string \<times> string)"
where
  "resolveClientEmail u demo caseEmail context =
     (let defaultEmail = or_else (user_email u) demo in
      if \<not> truthy caseEmail then
        (if truthy defaultEmail
         then (defaultEmail, (''info'', ''Email: No client email, using default for '' @ context))
         else (None, (''warn'', ''Email: No client email and no default configured for '' @ context)))
      else if isRealEmail caseEmail
        then (caseEmail, (''info'', ''Email: Using client email for '' @ context))
      else if truthy defaultEmail
        then (defaultEmail,
              (''info'', ''Email: Client email is dummy, using default for '' @ context))
      else (None,
            (''warn'', ''Email: Client email is dummy and no default configured for '' @ context)))"

section \<open>The case store (NotionService)\<close>

subsection \<open>Case records and errors\<close>

text \<open>
  A row of the case database, with the fields \<open>parseNotionPage\<close> reads and \<open>createCase\<close>
  and \<open>updateCase\<close> write. A property that is not set is \<open>None\<close>.
\<close>

record case_rec =
  case_id :: string
  case_name :: "string option"
  case_number :: "string option"
  status :: "string option"
  client_name :: "string option"
  client_email :: "string option"
  junior_name :: "string option"
  junior_email :: "string option"
  summary :: "string option"
  latest_outcome :: "string option"
  documents_needed :: "string option"
  hearing_count :: nat
  next_hearing :: "string option"
  client_welcome_sent :: bool
  assigned_to :: "string option"
  created_by :: "string option"
  last_updated :: "string option"

type_synonym case_ref = "string \<times> string option \<times> string option"

datatype error =
    CaseNotFoundError string
  | DuplicateCaseError "case_ref list"
  | CaseAlreadyExistsError case_rec
  | ExternalServiceError string string
  | TypeError string

text \<open>\<open>config.caseStatuses\<close>.\<close>

definition status_DRAFT :: string where "status_DRAFT = ''Draft''"
definition status_ACTIVE :: string where "status_ACTIVE = ''Active''"
definition status_CONTINUING :: string where "status_CONTINUING = ''Continuing''"
definition status_FINALIZED :: string where "status_FINALIZED = ''Finalized''"
definition status_CLOSED :: string where "status_CLOSED = ''Closed''"

text \<open>\<open>getTitle\<close> and \<open>getRichText\<close> end in \<open>|| null\<close>: an empty text reads as \<open>null\<close>.\<close>

definition getRichText :: "string option \<Rightarrow> string option" where
  "getRichText v = (if truthy v then v else None)"

definition parseNotionPage :: "case_rec \<Rightarrow> case_rec" where
  "parseNotionPage page =
     page\<lparr> case_name := getRichText (case_name page),
           case_number := getRichText (case_number page),
           client_name := getRichText (client_name page),
           junior_name := getRichText (junior_name page),
           summary := getRichText (summary page),
           assigned_to := getRichText (assigned_to page),
           created_by := getRichText (created_by page),
           last_updated := getRichText (last_updated page) \<rparr>"

subsection \<open>The services outside the program\<close>

text \<open>
  What the Notion client, the calendar, the mail transport, the clock, the random generator
  and the summary writer answer is not decided by the program. \<open>env\<close> fixes their answers
  for one workflow run: one flag per Notion endpoint (\<open>False\<close>: the call throws), the
  identifier the next created page gets, and so on.
\<close>

datatype cal_outcome = CalSkipped | CalNull | CalEvent string | CalAuthFailed

record env =
  init_ok :: bool
  query_ok :: bool
  create_ok :: bool
  update_ok :: bool
  retrieve_ok :: bool
  append_ok :: bool
  hearing_table_ok :: bool
  new_page_id :: string
  year :: nat
  random36 :: string
  now :: string
  today :: string
  demo_user_email :: "string option"
  date_valid :: "string \<Rightarrow> bool"
  date_iso :: "string \<Rightarrow> string"
  generated_summary :: string
  hearing_event_outcome :: cal_outcome
  email_configured :: bool

text \<open>
  Modelled from the spec: the store's \<open>contains\<close> filter, which the Notion service
  evaluates, is a case-insensitive substring match (section 4.2); a property that is not
  set matches nothing. Rows come back in the order of the database.
\<close>

definition db_contains :: "string option \<Rightarrow> string \<Rightarrow> bool" where
  "db_contains prop q =
     (case prop of None \<Rightarrow> False | Some s \<Rightarrow> includes_str (toLowerCase s) (toLowerCase q))"

text \<open>Keep the first row of every identifier, as the \<open>findIndex\<close> filter does.\<close>

fun uniqueResults :: "case_rec list \<Rightarrow> case_rec list" where
  "uniqueResults [] = []"
| "uniqueResults (x # xs) = x # uniqueResults (filter (\<lambda>y. case_id y \<noteq> case_id x) xs)"

definition searchCases :: "env \<Rightarrow> case_rec list \<Rightarrow> string \<Rightarrow> error + case_rec list" where
  "searchCases e db query =
     (if \<not> init_ok e then Inl (ExternalServiceError ''Notion'' ''Failed to initialize'')
      else if \<not> query_ok e then Inl (ExternalServiceError ''Notion'' ''query failed'')
      else
        let keywords = filter (\<lambda>w. length w > 2) (split_ws (toLowerCase query));
            nameResults = filter (\<lambda>p. db_contains (case_name p) query) db;
            numberResults = filter (\<lambda>p. db_contains (case_number p) query) db;
            clientResults = filter (\<lambda>p. db_contains (client_name p) query) db;
            keywordResults =
              (if length keywords > 0 \<and> length (hd keywords) > 3
               then filter (\<lambda>p. db_contains (case_name p) (hd keywords)
                                \<or> db_contains (client_name p) (hd keywords)) db
               else []);
            allResults = nameResults @ numberResults @ clientResults @ keywordResults
        in Inr (map parseNotionPage (uniqueResults allResults)))"

subsection \<open>findCase\<close>

text \<open>
  The scores are the rationals the source writes as decimal literals. The only products
  formed are \<open>k/n * 0.7\<close> with \<open>k \<le> n\<close>, and the only score in the interval from 0.7 to
  0.9 is 0.7 itself (one search word, matched), so the two comparisons of the selection
  rule decide the same way on these rationals as on the doubles of the source.
  \<open>Array.prototype.sort\<close> is stable, as \<open>sort_key\<close> is. The object returned for the best
  match also carries its score and match type, which no caller reads.
\<close>

datatype match_type = case_number_match | full_name_match | partial_match

definition searchWords_of :: "string \<Rightarrow> string list" where
  "searchWords_of lookupKey =
     filter (\<lambda>w. length w > 1) (split_ws (trim (toLowerCase lookupKey)))"

definition case_number_hit :: "string \<Rightarrow> case_rec \<Rightarrow> bool" where
  "case_number_hit lookupKey r =
     (let caseNumber = toUpperCase (or_str (case_number r) [])
      in includes_str (toUpperCase lookupKey) caseNumber \<and> length caseNumber > 5)"

definition allTargetWords :: "case_rec \<Rightarrow> string list" where
  "allTargetWords r =
     split_ws (toLowerCase (or_str (case_name r) []))
     @ split_ws (toLowerCase (or_str (client_name r) []))"

definition word_matches :: "case_rec \<Rightarrow> string \<Rightarrow> bool" where
  "word_matches r sw =
     list_ex (\<lambda>tw. includes_str tw sw \<or> includes_str sw tw) (allTargetWords r)"

definition matchingWords :: "string \<Rightarrow> case_rec \<Rightarrow> string list" where
  "matchingWords lookupKey r = filter (word_matches r) (searchWords_of lookupKey)"

definition score_result :: "string \<Rightarrow> case_rec \<Rightarrow> rat \<times> match_type" where
  "score_result lookupKey r =
     (let searchWords = searchWords_of lookupKey in
      if case_number_hit lookupKey r then (1, case_number_match)
      else
        let matching = matchingWords lookupKey r in
        if length matching = length searchWords \<and> length searchWords \<ge> 2
        then (95 / 100, full_name_match)
        else
          let matchRatio = (if length searchWords > 0
                            then of_nat (length matching) / of_nat (length searchWords)
                            else 0)
          in (matchRatio * (7 / 10), partial_match))"

definition similarity :: "string \<Rightarrow> case_rec \<Rightarrow> rat" where
  "similarity lookupKey r = fst (score_result lookupKey r)"

definition case_ref_of :: "case_rec \<Rightarrow> case_ref" where
  "case_ref_of r = (case_id r, case_name r, case_number r)"

definition findCase_on :: "string \<Rightarrow> case_rec list \<Rightarrow> error + case_rec" where
  "findCase_on lookupKey results =
     (if length results = 0 then Inl (CaseNotFoundError lookupKey)
      else if length results > 1 then
        (let scoredResults = sort_key (\<lambda>r. - similarity lookupKey r) results;
             bestMatch = scoredResults ! 0;
             secondBest = scoredResults ! 1;
             gap = similarity lookupKey bestMatch - similarity lookupKey secondBest
         in if similarity lookupKey bestMatch \<ge> 9 / 10
               \<or> (similarity lookupKey bestMatch \<ge> 7 / 10 \<and> gap \<ge> 2 / 10)
            then Inr bestMatch
            else Inl (DuplicateCaseError (map case_ref_of results)))
      else
        (let singleResult = results ! 0;
             searchWords = searchWords_of lookupKey;
             matching = matchingWords lookupKey singleResult
         in if case_number_hit lookupKey singleResult then Inr singleResult
            else if length searchWords \<ge> 2 \<and> length matching = length searchWords
              then Inr singleResult
            else if length searchWords \<ge> 2 \<and> length matching < length searchWords
              then Inl (CaseNotFoundError lookupKey)
            else Inr singleResult))"

definition findCase :: "env \<Rightarrow> case_rec list \<Rightarrow> string \<Rightarrow> error + case_rec" where
  "findCase e db lookupKey =
     (case searchCases e db lookupKey of
        Inl err \<Rightarrow> Inl err
      | Inr results \<Rightarrow> findCase_on lookupKey results)"

subsection \<open>calculateSimilarity\<close>

text \<open>
  \<open>normalize\<close> is \<open>s.replace(/\s+/g, ' ').replace(/\b(case|matter|vs|v\.?|the)\b/gi, '').trim()\<close>.
  The second replacement scans from the left: at a word boundary it tries the alternatives in
  the order written (\<open>v\.?\<close> first with the dot, then without), takes the first one that
  ends at a word boundary, deletes it and goes on behind it. The scores are rationals:
  the literals 1, 0.95, 0.85 and 0 are exact, and the average of the two word ratios is
  computed exactly where the source rounds to a double, so the two can differ only for an
  average within rounding distance of the threshold 0.85 of \<open>checkDuplicateCase\<close>.
\<close>

fun collapse_ws :: "string \<Rightarrow> string" where
  "collapse_ws [] = []"
| "collapse_ws (c # cs) =
     (if is_space c then
        (if cs \<noteq> [] \<and> is_space (hd cs) then collapse_ws cs else CHR '' '' # collapse_ws cs)
      else c # collapse_ws cs)"

definition head_opt :: "string \<Rightarrow> char option" where
  "head_opt s = (case s of [] \<Rightarrow> None | c # _ \<Rightarrow> Some c)"

definition at_boundary :: "char option \<Rightarrow> char option \<Rightarrow> bool" where
  "at_boundary a b =
     ((case a of None \<Rightarrow> False | Some c \<Rightarrow> is_word_char c)
      \<noteq> (case b of None \<Rightarrow> False | Some c \<Rightarrow> is_word_char c))"

definition filler_alternatives :: "string list" where
  "filler_alternatives = [''case'', ''matter'', ''vs'', ''v.'', ''v'', ''the'']"

definition filler_match :: "char option \<Rightarrow> string \<Rightarrow> nat option" where
  "filler_match prev s =
     (if \<not> at_boundary prev (head_opt s) then None
      else map_option length
             (find (\<lambda>alt. startsWith (toLowerCase s) alt
                         \<and> at_boundary (head_opt (drop (length alt - 1) s))
                                        (head_opt (drop (length alt) s)))
                   filler_alternatives))"

text \<open>\<open>skip\<close> counts the characters of a match that are still to be deleted.\<close>

fun strip_fillers :: "nat \<Rightarrow> char option \<Rightarrow> string \<Rightarrow> string" where
  "strip_fillers skip prev [] = []"
| "strip_fillers skip prev (c # cs) =
     (if skip > 0 then strip_fillers (skip - 1) (Some c) cs
      else (case filler_match prev (c # cs) of
              Some n \<Rightarrow> strip_fillers (n - 1) (Some c) cs
            | None \<Rightarrow> c # strip_fillers 0 (Some c) cs))"

definition normalize :: "string \<Rightarrow> string" where
  "normalize s = trim (strip_fillers 0 None (collapse_ws s))"

definition calculateSimilarity :: "string \<Rightarrow> string \<Rightarrow> rat" where
  "calculateSimilarity str1 str2 =
     (if str1 = [] \<or> str2 = [] then 0
      else
        let s1 = trim (toLowerCase str1); s2 = trim (toLowerCase str2) in
        if s1 = s2 then 1
        else
          let n1 = normalize s1; n2 = normalize s2 in
          if n1 = n2 then 95 / 100
          else if includes_str n1 n2 \<or> includes_str n2 n1 then 85 / 100
          else
            let words1 = filter (\<lambda>w. length w > 1) (split_ws n1);
                words2 = filter (\<lambda>w. length w > 1) (split_ws n2) in
            if length words1 = 0 \<or> length words2 = 0 then 0
            else
              let matching = filter (\<lambda>w. w \<in> set words2) words1;
                  matchRatio1 = of_nat (length matching) / of_nat (length words1);
                  matchRatio2 = of_nat (length matching) / of_nat (length words2);
                  avgRatio = (matchRatio1 + matchRatio2) / 2 in
              if matchRatio1 = 1 \<and> length words1 \<ge> 2 then min (9 / 10) (avgRatio + 2 / 10)
              else avgRatio)"

subsection \<open>The extracted payload\<close>

record payload =
  p_action_type :: string
  p_lookup_key :: "string option"
  p_case_name :: "string option"
  p_case_number :: "string option"
  p_client_name :: "string option"
  p_client_email :: "string option"
  p_client_phone :: "string option"
  p_junior_name :: "string option"
  p_junior_email :: "string option"
  p_outcome :: "string option"
  p_status :: "string option"
  p_next_hearing_date :: "string option"
  p_next_hearing_time :: "string option"
  p_documents_needed :: "string list option"
  p_case_summary :: "string option"
  p_raw_notes :: "string option"
  p_assign_to_junior :: bool
  p_missing_fields :: "string list option"

text \<open>\<open>xs?.length > 0\<close> on a list that may be absent.\<close>

definition nonempty :: "string list option \<Rightarrow> bool" where
  "nonempty xs = (case xs of None \<Rightarrow> False | Some l \<Rightarrow> length l > 0)"

definition list_or_empty :: "string list option \<Rightarrow> string list" where
  "list_or_empty xs = (case xs of None \<Rightarrow> [] | Some l \<Rightarrow> l)"

subsection \<open>checkDuplicateCase\<close>

definition is_placeholder :: "case_rec \<Rightarrow> bool" where
  "is_placeholder existing =
     startsWith (trim (toLowerCase (or_str (case_name existing) []))) ''unknown case''"

text \<open>The body of the loop over the search results: the first row that meets a rule.\<close>

fun first_duplicate :: "payload \<Rightarrow> case_rec list \<Rightarrow> case_rec option" where
  "first_duplicate caseData [] = None"
| "first_duplicate caseData (existing # rest) =
     (let existingClientName = trim (toLowerCase (or_str (client_name existing) []));
          existingCaseName = trim (toLowerCase (or_str (case_name existing) []));
          newClientName = trim (toLowerCase (or_str (p_client_name caseData) []));
          newCaseName = trim (toLowerCase (or_str (p_case_name caseData) []))
      in if startsWith existingCaseName ''unknown case'' then first_duplicate caseData rest
         else if newClientName \<noteq> [] \<and> existingClientName = newClientName then Some existing
         else if newClientName \<noteq> [] \<and> includes_str existingCaseName newClientName
           then Some existing
         else if newCaseName \<noteq> [] \<and> existingCaseName = newCaseName then Some existing
         else if calculateSimilarity existingCaseName newCaseName \<ge> 85 / 100 then Some existing
         else first_duplicate caseData rest)"

text \<open>The rows at which the loop returns: not a placeholder, and one of the four rules.\<close>

definition is_duplicate_of :: "payload \<Rightarrow> case_rec \<Rightarrow> bool" where
  "is_duplicate_of caseData existing =
     (let existingClientName = trim (toLowerCase (or_str (client_name existing) []));
          existingCaseName = trim (toLowerCase (or_str (case_name existing) []));
          newClientName = trim (toLowerCase (or_str (p_client_name caseData) []));
          newCaseName = trim (toLowerCase (or_str (p_case_name caseData) []))
      in \<not> startsWith existingCaseName ''unknown case''
         \<and> ((newClientName \<noteq> [] \<and> existingClientName = newClientName)
            \<or> (newClientName \<noteq> [] \<and> includes_str existingCaseName newClientName)
            \<or> (newCaseName \<noteq> [] \<and> existingCaseName = newCaseName)
            \<or> calculateSimilarity existingCaseName newCaseName \<ge> 85 / 100))"

definition duplicate_searchKey :: "payload \<Rightarrow> string option" where
  "duplicate_searchKey caseData =
     (if truthy (p_client_name caseData) then p_client_name caseData
      else if truthy (p_case_name caseData)
        then Some (join '' '' (take 2 (filter (\<lambda>w. length w > 2)
                                          (split_ws (the (p_case_name caseData))))))
      else p_client_name caseData)"

definition checkDuplicateCase :: "env \<Rightarrow> case_rec list \<Rightarrow> payload \<Rightarrow> case_rec option" where
  "checkDuplicateCase e db caseData =
     (if \<not> truthy (p_client_name caseData) \<and> \<not> truthy (p_case_name caseData) then None
      else
        let searchKey = duplicate_searchKey caseData in
        if \<not> truthy searchKey \<or> length (the searchKey) < 3 then None
        else (case searchCases e db (the searchKey) of
                Inl err \<Rightarrow> None
              | Inr results \<Rightarrow> first_duplicate caseData results))"

subsection \<open>The state a workflow run changes\<close>

text \<open>
  \<open>pages\<close> are the rows of the case database, \<open>history\<close> the paragraphs appended to case
  pages, \<open>hearings\<close> the rows of the hearing tables. \<open>calls\<close> records every call of a
  method of the email or the calendar service, whether or not the service is configured,
  and \<open>oplog\<close> the type tags of the operation log. Neither the wording of mails and log
  messages nor time stamps are modelled.

  Some history entries open with a pictograph and a space: the warning sign (U+26A0
  U+FE0F), the clipboard (U+1F4CB) or the check mark (U+2705). These lie outside the
  characters of the strings here, so an entry is the sign it opens with, if any, and the
  text after the sign and its space.
\<close>

datatype entry_sign = NoSign | WarningSign | Clipboard | CheckMark

record hearing =
  h_number :: nat
  h_date :: string
  h_description :: string
  h_outcome :: string
  h_next_steps :: string
  h_documents :: string
  h_court :: string

datatype call =
    sendJuniorAssignmentEmail
  | sendDocumentRequestToClient
  | sendDocumentRequestToJunior
  | sendClientUpdateEmail
  | sendClientHearingReport string nat
  | createHearingEvent
  | createDocumentReminder

record world =
  pages :: "case_rec list"
  history :: "(string \<times> entry_sign \<times> string) list"
  hearings :: "(string \<times> hearing) list"
  calls :: "call list"
  oplog :: "string list"

definition log_op :: "string \<Rightarrow> world \<Rightarrow> world" where
  "log_op tag w = w\<lparr>oplog := oplog w @ [tag]\<rparr>"

definition do_call :: "call \<Rightarrow> world \<Rightarrow> world" where
  "do_call c w = w\<lparr>calls := calls w @ [c]\<rparr>"

text \<open>\<open>addHistoryEntry\<close> swallows a failure of the append.\<close>

definition addHistoryEntry :: "env \<Rightarrow> string \<Rightarrow> entry_sign \<Rightarrow> string \<Rightarrow> world \<Rightarrow> world" where
  "addHistoryEntry e pageId sg entry w =
     (if append_ok e then w\<lparr>history := history w @ [(pageId, sg, entry)]\<rparr> else w)"

definition getCaseById :: "env \<Rightarrow> world \<Rightarrow> string \<Rightarrow> error + case_rec" where
  "getCaseById e w pageId =
     (if \<not> retrieve_ok e then Inl (CaseNotFoundError pageId)
      else (case find (\<lambda>p. case_id p = pageId) (pages w) of
              None \<Rightarrow> Inl (CaseNotFoundError pageId)
            | Some page \<Rightarrow> Inr (parseNotionPage page)))"

subsection \<open>createCase\<close>

record created_case =
  cr_id :: string
  cr_case_number :: string
  cr_case_name :: "string option"
  cr_status :: string
  cr_is_draft :: bool
  cr_missing_fields :: "string list"

text \<open>\<open>formatDateForNotion\<close> throws on a text that is not a date.\<close>

definition new_page :: "env \<Rightarrow> user \<Rightarrow> payload \<Rightarrow> string \<Rightarrow> string \<Rightarrow> case_rec" where
  "new_page e userContext caseData caseNumber st =
     \<lparr> case_id = new_page_id e,
       case_name = Some (or_str (p_case_name caseData) ''Untitled Case''),
       case_number = Some caseNumber,
       status = Some st,
       client_name = (if truthy (p_client_name caseData) then p_client_name caseData else None),
       client_email = (if truthy (p_client_email caseData) then p_client_email caseData else None),
       junior_name =
         (if user_role userContext = ''SENIOR'' \<and> p_assign_to_junior caseData
             \<and> truthy (or_else (p_junior_name caseData) (user_junior_name userContext))
          then or_else (p_junior_name caseData) (user_junior_name userContext) else None),
       junior_email =
         (if user_role userContext = ''SENIOR'' \<and> p_assign_to_junior caseData
             \<and> truthy (or_else (p_junior_email caseData) (user_junior_email userContext))
          then or_else (p_junior_email caseData) (user_junior_email userContext) else None),
       summary = (if truthy (p_case_summary caseData) then p_case_summary caseData else None),
       latest_outcome = None,
       documents_needed =
         (if nonempty (p_documents_needed caseData)
          then Some (join '', '' (list_or_empty (p_documents_needed caseData))) else None),
       hearing_count = 0,
       next_hearing =
         (if truthy (p_next_hearing_date caseData)
          then Some (date_iso e (the (p_next_hearing_date caseData))) else None),
       client_welcome_sent = False,
       assigned_to =
         Some (if p_assign_to_junior caseData \<and> truthy (user_junior_name userContext)
               then the (user_junior_name userContext) else user_name userContext),
       created_by = Some (user_name userContext),
       last_updated = None \<rparr>"

definition createCase ::
  "env \<Rightarrow> user \<Rightarrow> payload \<Rightarrow> world \<Rightarrow> (error + created_case) \<times> world"
where
  "createCase e userContext caseData w =
     (if \<not> init_ok e then (Inl (ExternalServiceError ''Notion'' ''Failed to initialize''), w)
      else (case checkDuplicateCase e (pages w) caseData of
        Some existingCase \<Rightarrow> (Inl (CaseAlreadyExistsError existingCase), w)
      | None \<Rightarrow>
         let caseNumber = (if truthy (p_case_number caseData) then the (p_case_number caseData)
                           else generateCaseNumber (year e) (random36 e));
             isDraft = nonempty (p_missing_fields caseData);
             st = (if isDraft then status_DRAFT else status_ACTIVE)
         in if truthy (p_next_hearing_date caseData)
               \<and> \<not> date_valid e (the (p_next_hearing_date caseData))
            then (Inl (ExternalServiceError ''Notion'' ''Invalid time value''), w)
            else if \<not> create_ok e then (Inl (ExternalServiceError ''Notion'' ''create failed''), w)
            else
              let page = new_page e userContext caseData caseNumber st;
                  w1 = w\<lparr>pages := pages w @ [page]\<rparr>;
                  w2 = addHistoryEntry e (case_id page) NoSign
                         (''Case created by '' @ user_name userContext) w1;
                  w3 = (if isDraft
                        then addHistoryEntry e (case_id page) WarningSign
                               (''Missing information: ''
                                @ join '', '' (list_or_empty (p_missing_fields caseData))) w2
                        else w2)
              in (Inr \<lparr> cr_id = case_id page, cr_case_number = caseNumber,
                        cr_case_name = p_case_name caseData, cr_status = st,
                        cr_is_draft = isDraft,
                        cr_missing_fields = list_or_empty (p_missing_fields caseData) \<rparr>, w3)))"

subsection \<open>updateCase, addHearing, closeCase\<close>

text \<open>
  The patch \<open>updateCase\<close> receives. A field is \<open>None\<close> when the key is absent;
  \<open>u_junior\<close> holds the two junior keys, which are set together and may hold \<open>null\<close>.
  The status of a patch is the name of a status or, when \<open>mapStatus\<close> looked up a key
  that its table inherits from \<open>Object.prototype\<close>, that inherited member: a function or
  an object, which is truthy and has no text. In the request it is a select option
  without a name, which the Notion API refuses; \<open>updateCase\<close> then throws as for any
  other refused update.
\<close>

datatype status_value = StatusName string | InheritedMember string

record updates =
  u_status :: "status_value option"
  u_next_hearing_date :: "string option"
  u_documents_needed :: "string list option"
  u_client_email :: "string option"
  u_client_name :: "string option"
  u_client_phone :: "string option"
  u_case_summary :: "string option"
  u_latest_outcome :: "string option"
  u_case_number :: "string option"
  u_junior :: "(string option \<times> string option) option"
  u_increment_hearing :: bool
  u_client_welcome_sent :: "bool option"
  u_outcome :: "string option"

definition no_updates :: updates where
  "no_updates =
     \<lparr> u_status = None, u_next_hearing_date = None, u_documents_needed = None,
       u_client_email = None, u_client_name = None, u_client_phone = None,
       u_case_summary = None, u_latest_outcome = None, u_case_number = None,
       u_junior = None, u_increment_hearing = False, u_client_welcome_sent = None,
       u_outcome = None \<rparr>"

text \<open>The properties \<open>updateCase\<close> writes to a row; it writes no others.\<close>

definition apply_properties :: "env \<Rightarrow> updates \<Rightarrow> nat option \<Rightarrow> case_rec \<Rightarrow> case_rec" where
  "apply_properties e ups newCount page =
     page\<lparr> status := (case u_status ups of
                        Some (StatusName s) \<Rightarrow> if s \<noteq> [] then Some s else status page
                      | _ \<Rightarrow> status page),
           client_name := (if truthy (u_client_name ups) then u_client_name ups
                           else client_name page),
           client_email := (if truthy (u_client_email ups) then u_client_email ups
                            else client_email page),
           summary := (if truthy (u_case_summary ups) then u_case_summary ups else summary page),
           next_hearing := (if truthy (u_next_hearing_date ups)
                            then Some (date_iso e (the (u_next_hearing_date ups)))
                            else next_hearing page),
           documents_needed := (if nonempty (u_documents_needed ups)
                                then Some (join '', '' (list_or_empty (u_documents_needed ups)))
                                else documents_needed page),
           hearing_count := (case newCount of None \<Rightarrow> hearing_count page | Some n \<Rightarrow> n),
           latest_outcome := (if truthy (u_latest_outcome ups) then u_latest_outcome ups
                              else latest_outcome page),
           client_welcome_sent := (case u_client_welcome_sent ups of
                                     None \<Rightarrow> client_welcome_sent page | Some b \<Rightarrow> b),
           last_updated := Some (now e) \<rparr>"

definition status_refused :: "updates \<Rightarrow> bool" where
  "status_refused ups =
     (case u_status ups of Some (InheritedMember k) \<Rightarrow> True | _ \<Rightarrow> False)"

definition updateCase :: "env \<Rightarrow> string \<Rightarrow> updates \<Rightarrow> world \<Rightarrow> (error + unit) \<times> world" where
  "updateCase e pageId ups w =
     (if \<not> init_ok e then (Inl (ExternalServiceError ''Notion'' ''Failed to initialize''), w)
      else if truthy (u_next_hearing_date ups) \<and> \<not> date_valid e (the (u_next_hearing_date ups))
        then (Inl (ExternalServiceError ''Notion'' ''Invalid time value''), w)
      else
        (case (if u_increment_hearing ups
               then map_sum id (\<lambda>c. Some (hearing_count c + 1)) (getCaseById e w pageId)
               else Inr None) of
           Inl err \<Rightarrow> (Inl (ExternalServiceError ''Notion'' ''Case not found''), w)
         | Inr newCount \<Rightarrow>
             if \<not> update_ok e \<or> find (\<lambda>p. case_id p = pageId) (pages w) = None
                \<or> status_refused ups
             then (Inl (ExternalServiceError ''Notion'' ''update failed''), w)
             else
               let w1 = w\<lparr>pages := map (\<lambda>p. if case_id p = pageId
                                             then apply_properties e ups newCount p else p)
                                      (pages w)\<rparr>;
                   w2 = (if truthy (u_outcome ups)
                         then addHistoryEntry e pageId NoSign (the (u_outcome ups)) w1 else w1)
               in (Inr (), w2)))"

definition addHearing ::
  "env \<Rightarrow> string \<Rightarrow> hearing \<Rightarrow> string option \<Rightarrow> world \<Rightarrow> (error + nat) \<times> world"
where
  "addHearing e casePageId hearingData nextDate w =
     (if \<not> hearing_table_ok e
      then (Inl (ExternalServiceError ''Notion'' ''Failed to add hearing''), w)
      else (case getCaseById e w casePageId of
        Inl err \<Rightarrow> (Inl (ExternalServiceError ''Notion'' ''Failed to add hearing''), w)
      | Inr currentCase \<Rightarrow>
          let hearingNumber = hearing_count currentCase + 1 in
          if \<not> create_ok e then (Inl (ExternalServiceError ''Notion'' ''Failed to add hearing''), w)
          else
            let w1 = w\<lparr>hearings := hearings w
                          @ [(casePageId, hearingData\<lparr>h_number := hearingNumber\<rparr>)]\<rparr>
            in (case updateCase e casePageId
                       (no_updates\<lparr> u_increment_hearing := True,
                                    u_latest_outcome :=
                                      Some (if h_outcome hearingData \<noteq> [] then h_outcome hearingData
                                            else ''Hearing '' @ show_nat hearingNumber @ '' completed''),
                                    u_next_hearing_date := nextDate \<rparr>) w1 of
                  (Inl err, w2) \<Rightarrow> (Inl (ExternalServiceError ''Notion'' ''Failed to add hearing''), w2)
                | (Inr u, w2) \<Rightarrow>
                    (Inr hearingNumber,
                     addHistoryEntry e casePageId Clipboard
                       (''Hearing '' @ show_nat hearingNumber @ '': ''
                        @ (if h_outcome hearingData \<noteq> [] then h_outcome hearingData
                           else ''Completed'')) w2))))"

definition closeCase :: "env \<Rightarrow> string \<Rightarrow> world \<Rightarrow> (error + unit) \<times> world" where
  "closeCase e pageId w =
     (case updateCase e pageId (no_updates\<lparr>u_status := Some (StatusName status_CLOSED)\<rparr>) w of
        (Inl err, w1) \<Rightarrow> (Inl err, w1)
      | (Inr u, w1) \<Rightarrow> (Inr (), addHistoryEntry e pageId CheckMark ''Case closed/finalized'' w1))"

section \<open>The workflow orchestrator\<close>

subsection \<open>Results\<close>

datatype result_status =
  CREATED | CREATED_AS_DRAFT | UPDATED | DUPLICATE_CASE | CLARIFICATION_NEEDED | ERROR
  | UNKNOWN_ACTION

text \<open>
  The object a branch returns for one payload. \<open>r_existing_case\<close> holds identifier, case
  name, case number and page address of the case a duplicate collided with. The \<open>message\<close>
  and \<open>suggestion\<close> texts are left out.
\<close>

record result =
  r_status :: result_status
  r_case_id :: "string option"
  r_case_name :: "string option"
  r_case_number :: "string option"
  r_is_draft :: "bool option"
  r_missing_fields :: "string list option"
  r_actions :: "string list"
  r_existing_case :: "(string \<times> string option \<times> string option \<times> string option) option"
  r_matches :: "case_ref list option"
  r_error :: "string option"
  r_outcome :: "string option"
  r_hearing_number :: "nat option"
  r_next_date :: "string option"
  r_calendar_event :: "cal_outcome option"
  r_email_sent :: bool
  r_email_to :: "string option"

definition result_of :: "result_status \<Rightarrow> string option \<Rightarrow> result" where
  "result_of st nm =
     \<lparr> r_status = st, r_case_id = None, r_case_name = nm, r_case_number = None,
       r_is_draft = None, r_missing_fields = None, r_actions = [], r_existing_case = None,
       r_matches = None, r_error = None, r_outcome = None, r_hearing_number = None,
       r_next_date = None, r_calendar_event = None, r_email_sent = False,
       r_email_to = None \<rparr>"

text \<open>\<open>error.message\<close>, as the constructors in utils/errors build it.\<close>

definition error_message :: "error \<Rightarrow> string" where
  "error_message err =
     (case err of
        CaseNotFoundError i \<Rightarrow> ''Case not found: '' @ i
      | DuplicateCaseError ms \<Rightarrow> ''Multiple cases found. Please specify case number for clarity.''
      | CaseAlreadyExistsError c \<Rightarrow>
          ''A similar case already exists: '' @ [CHR 0x22] @ or_str (case_name c) ''null''
          @ [CHR 0x22] @ '' ('' @ or_str (case_number c) ''null'' @ ''). ''
          @ ''Please update the existing case instead of creating a new one.''
      | ExternalServiceError service msg \<Rightarrow> service @ '' error: '' @ msg
      | TypeError msg \<Rightarrow> msg)"

subsection \<open>Helpers of the class\<close>

text \<open>
  \<open>mapStatus\<close> reads \<open>statusMap[status] || 'Active'\<close> from an object literal with four
  keys. Such an object also answers for the keys of \<open>Object.prototype\<close>, with a function
  or, for \<open>__proto__\<close>, an object.
\<close>

definition inherited_keys :: "string list" where
  "inherited_keys =
     [''constructor'', ''hasOwnProperty'', ''isPrototypeOf'', ''propertyIsEnumerable'',
      ''toLocaleString'', ''toString'', ''valueOf'', ''__proto__'', ''__defineGetter__'',
      ''__defineSetter__'', ''__lookupGetter__'', ''__lookupSetter__'']"

definition mapStatus :: "string \<Rightarrow> status_value" where
  "mapStatus st =
     (if st = ''CONTINUING'' then StatusName status_CONTINUING
      else if st = ''FINALIZED'' then StatusName status_FINALIZED
      else if st = ''DRAFT'' then StatusName status_DRAFT
      else if st = ''ACTIVE'' then StatusName status_ACTIVE
      else if st \<in> set inherited_keys then InheritedMember st
      else StatusName status_ACTIVE)"

text \<open>
  \<open>handleDocumentRequest(existingCase, updateData)\<close>; \<open>clientEmail\<close> is
  \<open>existingCase.client_email || updateData.client_email\<close>.
\<close>

definition handleDocumentRequest ::
  "user \<Rightarrow> string list option \<Rightarrow> string option \<Rightarrow> world \<Rightarrow> world"
where
  "handleDocumentRequest u docs clientEmail w =
     (if length (list_or_empty docs) = 0 then w
      else
        let w1 = log_op ''CALENDAR_EVENT'' (do_call createDocumentReminder w);
            w2 = (if truthy clientEmail
                  then log_op ''CLIENT_EMAIL'' (do_call sendDocumentRequestToClient w1) else w1)
        in if user_role u = ''SENIOR'' \<and> truthy (user_junior_email u)
           then log_op ''JUNIOR_EMAIL'' (do_call sendDocumentRequestToJunior w2) else w2)"

text \<open>
  \<open>calendar.createHearingEvent\<close>: the call is recorded; its answer is the one \<open>env\<close>
  fixes, and an authentication failure is thrown.
\<close>

definition call_createHearingEvent :: "env \<Rightarrow> world \<Rightarrow> (error + cal_outcome) \<times> world" where
  "call_createHearingEvent e w =
     (case hearing_event_outcome e of
        CalAuthFailed \<Rightarrow>
          (Inl (ExternalServiceError ''Google Calendar''
                  ''Authentication failed. Please re-authorize.''), do_call createHearingEvent w)
      | ev \<Rightarrow> (Inr ev, do_call createHearingEvent w))"

subsection \<open>createDraftFromUnknown\<close>

definition draftData_for :: "payload \<Rightarrow> string \<Rightarrow> payload" where
  "draftData_for caseData lookupKey =
     \<lparr> p_action_type = [], p_lookup_key = None,
       p_case_name = Some (''Unknown Case: '' @ lookupKey),
       p_case_number = None, p_client_name = None, p_client_email = None,
       p_client_phone = None, p_junior_name = None, p_junior_email = None,
       p_outcome = None, p_status = None, p_next_hearing_date = None,
       p_next_hearing_time = None, p_documents_needed = None,
       p_case_summary = or_else (p_outcome caseData) (p_raw_notes caseData),
       p_raw_notes = None, p_assign_to_junior = False,
       p_missing_fields = Some [''case_verification'', ''client_name'', ''client_email''] \<rparr>"

definition createDraftFromUnknown ::
  "env \<Rightarrow> user \<Rightarrow> payload \<Rightarrow> string \<Rightarrow> world \<Rightarrow> (error + result) \<times> world"
where
  "createDraftFromUnknown e u caseData lookupKey w =
     (let draftData = draftData_for caseData lookupKey in
      case createCase e u draftData w of
        (Inl err, w1) \<Rightarrow> (Inl err, w1)
      | (Inr createdCase, w1) \<Rightarrow>
          let w2 = addHistoryEntry e (cr_id createdCase) WarningSign
                     (''This case was auto-created because '' @ [CHR 0x22] @ lookupKey
                      @ [CHR 0x22] @ '' was not found. Please verify and update case details.'') w1
          in (Inr ((result_of CREATED_AS_DRAFT (p_case_name draftData))
                     \<lparr> r_case_id := Some (cr_id createdCase),
                       r_case_number := Some (cr_case_number createdCase),
                       r_is_draft := Some True,
                       r_actions := [''Created draft case for unknown reference''] \<rparr>), w2))"

subsection \<open>handleNewCase (Branch B)\<close>

fun uniq :: "string list \<Rightarrow> string list" where
  "uniq [] = []"
| "uniq (x # xs) = x # uniq (removeAll x xs)"

definition missingFields_of :: "user \<Rightarrow> payload \<Rightarrow> string list" where
  "missingFields_of u caseData =
     (if \<not> truthy (p_case_name caseData) then [''case_name''] else [])
     @ (if \<not> truthy (p_client_name caseData) then [''client_name''] else [])
     @ (if \<not> truthy (p_client_email caseData) then [''client_email''] else [])
     @ (if user_role u = ''SENIOR'' \<and> p_assign_to_junior caseData
           \<and> \<not> truthy (p_junior_email caseData) \<and> \<not> truthy (user_junior_email u)
        then [''junior_email''] else [])"

definition allMissingFields_of :: "user \<Rightarrow> payload \<Rightarrow> string list" where
  "allMissingFields_of u caseData =
     uniq (missingFields_of u caseData @ list_or_empty (p_missing_fields caseData))"

text \<open>The payload as \<open>handleNewCase\<close> hands it to \<open>createCase\<close>.\<close>

definition prepared_payload :: "env \<Rightarrow> user \<Rightarrow> payload \<Rightarrow> payload" where
  "prepared_payload e u caseData0 =
     (let caseData = caseData0\<lparr>p_missing_fields := Some (allMissingFields_of u caseData0)\<rparr>
      in if \<not> truthy (p_case_summary caseData) \<and> truthy (p_raw_notes caseData)
         then caseData\<lparr>p_case_summary := Some (generated_summary e)\<rparr> else caseData)"

definition notion_url :: "string \<Rightarrow> string option" where
  "notion_url i =
     (if i = [] then None else Some (''https://notion.so/'' @ filter (\<lambda>c. c \<noteq> CHR ''-'') i))"

text \<open>Steps 5 to 7, for a case that was created as active.\<close>

definition active_case_followup ::
  "env \<Rightarrow> user \<Rightarrow> payload \<Rightarrow> result \<Rightarrow> world \<Rightarrow> (error + result) \<times> world"
where
  "active_case_followup e u caseData result0 w =
     (let (r5, w5) =
            (if user_role u = ''SENIOR'' \<and> p_assign_to_junior caseData
             then (result0\<lparr>r_actions := r_actions result0 @ [''Junior notified of assignment'']\<rparr>,
                   log_op ''JUNIOR_EMAIL'' (do_call sendJuniorAssignmentEmail w))
             else if user_role u = ''SENIOR'' \<and> auto_assign_to_junior u
             then (result0\<lparr>r_actions := r_actions result0 @ [''Auto-assigned to junior'']\<rparr>,
                   log_op ''JUNIOR_EMAIL'' (do_call sendJuniorAssignmentEmail w))
             else (result0, w));
          (r6, w6) =
            (if nonempty (p_documents_needed caseData)
             then (r5\<lparr>r_actions := r_actions r5 @ [''Document collection requested'']\<rparr>,
                   handleDocumentRequest u (p_documents_needed caseData)
                     (p_client_email caseData) w5)
             else (r5, w5))
      in if truthy (p_next_hearing_date caseData) then
           (case call_createHearingEvent e w6 of
              (Inl err, w7) \<Rightarrow> (Inl err, w7)
            | (Inr ev, w7) \<Rightarrow>
                let r7 = (if ev \<noteq> CalNull
                          then r6\<lparr>r_actions := r_actions r6
                                                @ [''First hearing calendar event created''],
                                  r_calendar_event := Some ev\<rparr>
                          else r6)
                in (Inr (r7\<lparr>r_actions := r_actions r7
                                          @ [''Client email held until first hearing'']\<rparr>), w7))
         else (Inr (r6\<lparr>r_actions := r_actions r6
                                     @ [''Client email held until first hearing'']\<rparr>), w6))"

definition handleNewCase :: "env \<Rightarrow> user \<Rightarrow> payload \<Rightarrow> world \<Rightarrow> result \<times> world" where
  "handleNewCase e u caseData0 w =
     (let caseData = prepared_payload e u caseData0;
          allMissingFields = allMissingFields_of u caseData0;
          attempt =
            (case createCase e u caseData w of
               (Inl err, w1) \<Rightarrow> (Inl err, w1)
             | (Inr createdCase, w1) \<Rightarrow>
                 let w2 = log_op ''NOTION_CREATE'' w1;
                     result = (result_of (if cr_is_draft createdCase then CREATED_AS_DRAFT
                                          else CREATED) (p_case_name caseData))
                                \<lparr> r_case_id := Some (cr_id createdCase),
                                  r_case_number := Some (cr_case_number createdCase),
                                  r_is_draft := Some (cr_is_draft createdCase),
                                  r_missing_fields := Some allMissingFields \<rparr>
                 in if cr_is_draft createdCase
                    then (Inr (result\<lparr>r_actions :=
                                 [''Created as draft - awaiting complete information'']\<rparr>), w2)
                    else active_case_followup e u caseData result w2)
      in case attempt of
           (Inr result, w') \<Rightarrow> (result, w')
         | (Inl (CaseAlreadyExistsError existingCase), w') \<Rightarrow>
             ((result_of DUPLICATE_CASE (p_case_name caseData))
                \<lparr> r_existing_case :=
                    Some (case_id existingCase, case_name existingCase,
                          case_number existingCase, notion_url (case_id existingCase)) \<rparr>,
              log_op ''DUPLICATE_CASE'' w')
         | (Inl err, w') \<Rightarrow>
             ((result_of ERROR (p_case_name caseData))\<lparr>r_error := Some (error_message err)\<rparr>,
              log_op ''ERROR'' w'))"

subsection \<open>handleExistingCase (Branch A)\<close>

text \<open>Sequencing of steps that may throw; the state reached so far is kept.\<close>

definition bind_w ::
  "(error + 'a) \<times> world \<Rightarrow> ('a \<Rightarrow> world \<Rightarrow> (error + 'b) \<times> world) \<Rightarrow> (error + 'b) \<times> world"
where
  "bind_w m f = (case m of (Inl err, w) \<Rightarrow> (Inl err, w) | (Inr x, w) \<Rightarrow> f x w)"

text \<open>
  Step 1 ends in one of three ways: a case to update, a result to return at once (a draft
  or a clarification request), or an exception for the handler at the end of the method.
\<close>

datatype located = Found case_rec | Done result | Failed error

definition lift_located :: "(error + result) \<times> world \<Rightarrow> located \<times> world" where
  "lift_located m = (case m of (Inl err, w) \<Rightarrow> (Failed err, w) | (Inr r, w) \<Rightarrow> (Done r, w))"

definition locate_case ::
  "env \<Rightarrow> user \<Rightarrow> payload \<Rightarrow> string option \<Rightarrow> world \<Rightarrow> located \<times> world"
where
  "locate_case e u caseData lookupKey w =
     (case lookupKey of
        None \<Rightarrow>
          (Failed (ExternalServiceError ''Notion''
                     (if \<not> init_ok e then ''Failed to initialize''
                      else ''Cannot read properties of undefined'')), w)
      | Some key \<Rightarrow>
          (case findCase e (pages w) key of
             Inr existingCase \<Rightarrow> (Found existingCase, log_op ''NOTION_SEARCH'' w)
           | Inl (CaseNotFoundError i) \<Rightarrow>
               lift_located (createDraftFromUnknown e u caseData key (log_op ''CASE_NOT_FOUND'' w))
           | Inl (DuplicateCaseError matches) \<Rightarrow>
               if list_ex (\<lambda>m. fst (snd m) = None) matches
               then (Failed (TypeError ''Cannot read properties of null''), w)
               else
                 let realCases =
                       filter (\<lambda>m. \<not> startsWith (the (fst (snd m))) ''Unknown Case'') matches
                 in if length realCases = 1 then
                      (case getCaseById e w (fst (realCases ! 0)) of
                         Inr existingCase \<Rightarrow> (Found existingCase, log_op ''NOTION_SEARCH'' w)
                       | Inl getErr \<Rightarrow> (Failed getErr, w))
                    else if length realCases = 0 then
                      lift_located
                        (createDraftFromUnknown e u caseData key (log_op ''CASE_NOT_FOUND'' w))
                    else
                      (Done ((result_of CLARIFICATION_NEEDED lookupKey)
                               \<lparr>r_matches := Some realCases\<rparr>),
                       log_op ''DUPLICATE_CASES'' w)
           | Inl err \<Rightarrow> (Failed err, w)))"

text \<open>The patch of step 3, before it is handed to \<open>updateCase\<close>.\<close>

definition build_updates :: "user \<Rightarrow> payload \<Rightarrow> case_rec \<Rightarrow> updates" where
  "build_updates u caseData existingCase =
     no_updates
       \<lparr> u_status := (if truthy (p_status caseData)
                      then Some (mapStatus (the (p_status caseData))) else None),
         u_next_hearing_date := (if truthy (p_next_hearing_date caseData)
                                 then p_next_hearing_date caseData else None),
         u_documents_needed := (if nonempty (p_documents_needed caseData)
                                then p_documents_needed caseData else None),
         u_client_email := (if truthy (p_client_email caseData)
                            then p_client_email caseData else None),
         u_client_name := (if truthy (p_client_name caseData)
                           then p_client_name caseData else None),
         u_client_phone := (if truthy (p_client_phone caseData)
                            then p_client_phone caseData else None),
         u_case_summary := (if truthy (p_case_summary caseData)
                            then p_case_summary caseData else None),
         u_latest_outcome := (if truthy (p_outcome caseData) then p_outcome caseData else None),
         u_case_number := (if truthy (p_case_number caseData)
                              \<and> \<not> truthy (case_number existingCase)
                           then p_case_number caseData else None),
         u_junior := (if p_assign_to_junior caseData
                      then Some (or_else (or_else (p_junior_name caseData) (user_junior_name u)) None,
                                 or_else (or_else (p_junior_email caseData) (user_junior_email u)) None)
                      else None) \<rparr>"

text \<open>\<open>Object.keys(updates).length > 0\<close>.\<close>

definition has_keys :: "updates \<Rightarrow> bool" where
  "has_keys ups =
     (u_status ups \<noteq> None \<or> u_next_hearing_date ups \<noteq> None \<or> u_documents_needed ups \<noteq> None
      \<or> u_client_email ups \<noteq> None \<or> u_client_name ups \<noteq> None \<or> u_client_phone ups \<noteq> None
      \<or> u_case_summary ups \<noteq> None \<or> u_latest_outcome ups \<noteq> None \<or> u_case_number ups \<noteq> None
      \<or> u_junior ups \<noteq> None \<or> u_increment_hearing ups \<or> u_client_welcome_sent ups \<noteq> None
      \<or> u_outcome ups \<noteq> None)"

definition hearingData_of :: "env \<Rightarrow> payload \<Rightarrow> hearing" where
  "hearingData_of e caseData =
     \<lparr> h_number = 0,
       h_date = today e,
       h_description = or_str (or_else (p_raw_notes caseData) (p_outcome caseData)) [],
       h_outcome = or_str (p_outcome caseData) [],
       h_next_steps = (if truthy (p_next_hearing_date caseData)
                       then ''Next hearing: '' @ the (p_next_hearing_date caseData) else []),
       h_documents = join '', '' (list_or_empty (p_documents_needed caseData)),
       h_court = [] \<rparr>"

definition add_action :: "string \<Rightarrow> result \<Rightarrow> result" where
  "add_action a r = r\<lparr>r_actions := r_actions r @ [a]\<rparr>"

text \<open>Steps 2 to 6, for the case step 1 located.\<close>

definition update_found ::
  "env \<Rightarrow> user \<Rightarrow> payload \<Rightarrow> case_rec \<Rightarrow> world \<Rightarrow> (error + result) \<times> world"
where
  "update_found e u caseData existingCase w =
     bind_w
       (if truthy (p_outcome caseData)
        then bind_w (addHearing e (case_id existingCase) (hearingData_of e caseData)
                       (p_next_hearing_date caseData) w)
               (\<lambda>n w'. (Inr (Some n), log_op ''HEARING_ADDED'' w'))
        else (Inr None, w))
       (\<lambda>hearingResult w2.
          let ups = build_updates u caseData existingCase;
              w3 = (if p_assign_to_junior caseData
                    then log_op ''JUNIOR_EMAIL'' (do_call sendJuniorAssignmentEmail w2) else w2)
          in bind_w
               (if has_keys ups
                then bind_w (updateCase e (case_id existingCase) ups w3)
                       (\<lambda>x w'. (Inr (), log_op ''NOTION_UPDATE'' w'))
                else (Inr (), log_op ''NOTION_UPDATE'' w3))
               (\<lambda>x w4.
                  let result = (result_of UPDATED (case_name existingCase))
                                 \<lparr> r_case_id := Some (case_id existingCase),
                                   r_case_number := case_number existingCase,
                                   r_outcome := p_outcome caseData,
                                   r_hearing_number := hearingResult,
                                   r_next_date := p_next_hearing_date caseData \<rparr>
                  in bind_w
                       (if p_status caseData = Some ''FINALIZED''
                        then bind_w (closeCase e (case_id existingCase) w4)
                               (\<lambda>x w'.
                                  let w'' = log_op ''CASE_CLOSED'' w';
                                      r1 = add_action ''Case closed/archived'' result
                                  in if truthy (client_email existingCase)
                                     then (Inr (add_action ''Client notified of case conclusion'' r1),
                                           do_call sendClientUpdateEmail w'')
                                     else (Inr r1, w''))
                        else (Inr result, w4))
                       (\<lambda>r5 w5.
                          bind_w
                            (if truthy (p_next_hearing_date caseData)
                             then bind_w (call_createHearingEvent e w5)
                                    (\<lambda>ev w'.
                                       case ev of
                                         CalEvent i \<Rightarrow>
                                           (Inr ((add_action ''Calendar reminder set'' r5)
                                                   \<lparr>r_calendar_event := Some ev\<rparr>),
                                            log_op ''CALENDAR_EVENT'' w')
                                       | _ \<Rightarrow> (Inr r5, w'))
                             else (Inr r5, w5))
                            (\<lambda>r6 w6.
                               let caseEmail = or_else (client_email existingCase)
                                                 (p_client_email caseData);
                                   (r7, w7) =
                                     (if nonempty (p_documents_needed caseData)
                                      then (add_action ''Document request processed'' r6,
                                            handleDocumentRequest u (p_documents_needed caseData)
                                              caseEmail w6)
                                      else (r6, w6));
                                   newHearingCount = hearing_count existingCase + 1;
                                   resolvedEmail = fst (resolveClientEmail u (demo_user_email e)
                                                          caseEmail ''hearing update'')
                               in if truthy (p_outcome caseData) \<and> truthy resolvedEmail then
                                    (let w8 = do_call (sendClientHearingReport (the resolvedEmail)
                                                         newHearingCount) w7;
                                         (r8, w9) =
                                           (if email_configured e
                                            then ((add_action (''Hearing #'' @ show_nat newHearingCount
                                                               @ '' report sent to client'') r7)
                                                    \<lparr> r_email_sent := True,
                                                      r_email_to := resolvedEmail \<rparr>,
                                                  log_op ''CLIENT_EMAIL'' w8)
                                            else (r7, w8))
                                     in if newHearingCount = 1
                                           \<and> \<not> client_welcome_sent existingCase
                                        then bind_w (updateCase e (case_id existingCase)
                                                       (no_updates\<lparr>u_client_welcome_sent := Some True\<rparr>)
                                                       w9)
                                               (\<lambda>x w'. (Inr r8, w'))
                                        else (Inr r8, w9))
                                  else (Inr r7, w7)))))"

definition handleExistingCase :: "env \<Rightarrow> user \<Rightarrow> payload \<Rightarrow> world \<Rightarrow> result \<times> world" where
  "handleExistingCase e u caseData w =
     (let lookupKey = or_else (p_lookup_key caseData) (p_case_name caseData);
          attempt =
            (case locate_case e u caseData lookupKey w of
               (Found existingCase, w1) \<Rightarrow> update_found e u caseData existingCase w1
             | (Done r, w1) \<Rightarrow> (Inr r, w1)
             | (Failed err, w1) \<Rightarrow> (Inl err, w1))
      in case attempt of
           (Inr result, w') \<Rightarrow> (result, w')
         | (Inl err, w') \<Rightarrow>
             ((result_of ERROR lookupKey)\<lparr>r_error := Some (error_message err)\<rparr>,
              log_op ''ERROR'' w'))"

subsection \<open>processSingleCase\<close>

definition processSingleCase :: "env \<Rightarrow> user \<Rightarrow> payload \<Rightarrow> world \<Rightarrow> result \<times> world" where
  "processSingleCase e u caseData w =
     (if p_action_type caseData = ''UPDATE_EXISTING'' then handleExistingCase e u caseData w
      else if p_action_type caseData = ''CREATE_NEW'' then handleNewCase e u caseData w
      else if p_action_type caseData = ''CLARIFICATION_NEEDED''
        then (result_of CLARIFICATION_NEEDED
                (or_else (p_lookup_key caseData) (p_case_name caseData)), w)
      else (result_of UNKNOWN_ACTION (p_case_name caseData), w))"

section \<open>Example data\<close>

text \<open>A store in which every call succeeds, and a case row with the usual fields set.\<close>

definition env_ok :: env where
  "env_ok =
     \<lparr> init_ok = True, query_ok = True, create_ok = True, update_ok = True,
       retrieve_ok = True, append_ok = True, hearing_table_ok = True,
       new_page_id = ''page-new'', year = 2025, random36 = ''0.4fzyo82mvyr'',
       now = ''2025-01-10T10:00:00.000Z'', today = ''2025-01-10'',
       demo_user_email = None, date_valid = (\<lambda>d. True), date_iso = (\<lambda>d. d),
       generated_summary = ''Summary.'', hearing_event_outcome = CalSkipped,
       email_configured = False \<rparr>"

definition a_case :: "string \<Rightarrow> string \<Rightarrow> string \<Rightarrow> string \<Rightarrow> case_rec" where
  "a_case i nm num cl =
     \<lparr> case_id = i, case_name = Some nm, case_number = Some num, status = Some ''Active'',
       client_name = Some cl, client_email = None, junior_name = None, junior_email = None,
       summary = None, latest_outcome = None, documents_needed = None, hearing_count = 0,
       next_hearing = None, client_welcome_sent = False, assigned_to = None,
       created_by = None, last_updated = None \<rparr>"

definition a_user :: user where
  "a_user =
     \<lparr> user_id = ''lawyer_senior_01'', user_role = ''SENIOR'',
       user_name = ''Advocate Priya Sharma'', user_email = Some ''lawyer@firm.com'',
       user_junior_name = Some ''Rahul Kumar'',
       user_junior_email = Some ''rahul.kumar@legalfirm.com'',
       auto_assign_to_junior = False \<rparr>"

definition a_payload :: "string \<Rightarrow> payload" where
  "a_payload action =
     \<lparr> p_action_type = action, p_lookup_key = None, p_case_name = None,
       p_case_number = None, p_client_name = None, p_client_email = None,
       p_client_phone = None, p_junior_name = None, p_junior_email = None,
       p_outcome = None, p_status = None, p_next_hearing_date = None,
       p_next_hearing_time = None, p_documents_needed = None, p_case_summary = None,
       p_raw_notes = None, p_assign_to_junior = False, p_missing_fields = None \<rparr>"

definition a_world :: "case_rec list \<Rightarrow> world" where
  "a_world rows = \<lparr> pages = rows, history = [], hearings = [], calls = [], oplog = [] \<rparr>"

definition scenario_A :: payload where
  "scenario_A =
     (a_payload ''CREATE_NEW'')
       \<lparr> p_case_name := Some ''John Smith Property Dispute'',
         p_client_name := Some ''John Smith'',
         p_client_email := Some ''john@example.com'' \<rparr>"

definition numberless_case :: case_rec where
  "numberless_case = (a_case ''p1'' ''State vs Sharma'' [] ''Sharma'')\<lparr>case_number := None\<rparr>"

definition number_update :: payload where
  "number_update =
     (a_payload ''UPDATE_EXISTING'')
       \<lparr> p_lookup_key := Some ''Sharma'', p_case_number := Some ''CASE-2025-NEW01'' \<rparr>"

definition arun_contract :: case_rec where
  "arun_contract = a_case ''p1'' ''Arun Mehta Contract Breach'' ''CASE-2025-AAAAA'' ''Arun Mehta''"

definition arun_property :: case_rec where
  "arun_property = a_case ''p2'' ''Arun Mehta Property Case'' ''CASE-2025-BBBBB'' ''Arun Mehta''"

definition priya_estate :: case_rec where
  "priya_estate = a_case ''p5'' ''Sharma Estate Partition'' ''CASE-2025-DDDDD'' ''Priya Sharma''"

definition incomplete_duplicate :: payload where
  "incomplete_duplicate =
     (a_payload ''CREATE_NEW'')
       \<lparr> p_case_name := Some ''Priya Sharma Tenancy'', p_client_name := Some ''Priya Sharma'' \<rparr>"

definition incomplete_create :: payload where
  "incomplete_create =
     (a_payload ''CREATE_NEW'')
       \<lparr> p_case_name := Some ''Meera Nair Custody'', p_client_name := Some ''Meera Nair'',
         p_assign_to_junior := True, p_documents_needed := Some [''Birth certificate''],
         p_next_hearing_date := Some ''2025-02-01'' \<rparr>"

definition flagged_create :: payload where
  "flagged_create = scenario_A\<lparr>p_missing_fields := Some [''court_name'']\<rparr>"

definition scenario_D :: payload where
  "scenario_D =
     (a_payload ''CREATE_NEW'')
       \<lparr> p_case_name := Some ''Priya Sharma Lease Dispute'',
         p_client_name := Some ''Priya Sharma'',
         p_client_email := Some ''priya.sharma@gmail.com'' \<rparr>"

definition estate_matter :: case_rec where
  "estate_matter = a_case ''p6'' ''Estate Matter'' ''CASE-2025-EEEEE'' ''Priya Sharma''"

definition sharma_vs_state :: case_rec where
  "sharma_vs_state = a_case ''p7'' ''Priya Sharma vs State'' ''CASE-2025-FFFFF'' ''P. Sharma''"


definition unknown_matter :: case_rec where
  "unknown_matter = a_case ''p8'' ''Unknown Matter'' ''CASE-2025-GGGGG'' ''Ravi Verma''"

definition sharma_update :: payload where
  "sharma_update =
     (a_payload ''UPDATE_EXISTING'')
       \<lparr> p_lookup_key := Some ''Sharma'', p_outcome := Some ''Bail granted'' \<rparr>"

definition patel_draft :: case_rec where
  "patel_draft =
     (a_case ''p3'' ''Priya Patel Divorce'' ''CASE-2025-CCCCC'' [])
       \<lparr>client_name := None, status := Some ''Draft''\<rparr>"

definition patel_update :: payload where
  "patel_update =
     (a_payload ''UPDATE_EXISTING'')
       \<lparr> p_lookup_key := Some ''Priya Sharma'', p_outcome := Some ''Bail granted'' \<rparr>"

section \<open>Verified properties\<close>

subsection \<open>findCase: a single candidate that matches only in part\<close>

lemma filter_shorter_iff: "length (filter P xs) < length xs \<longleftrightarrow> (\<exists>x \<in> set xs. \<not> P x)"
  by (induction xs) (auto simp: less_Suc_eq_le)

text \<open>
  The guard of the single-candidate branch, on the tokens the code compares. The lookup key
  has at least two significant words, the store search returns exactly one candidate, the
  candidate's case number (longer than 5) is not contained in the key, and some significant
  word of the key matches none of the candidate's tokens (substring in either direction).
  Then \<open>findCase\<close> raises \<open>CaseNotFoundError\<close> for the key and does not return the
  candidate. The tokens are the pieces of \<open>split(/\s+/)\<close>: an absent or empty name, and a
  name with leading or trailing whitespace, contribute an empty token, which every word
  matches, so that for such a candidate the guard never fires.
\<close>

theorem findCase_single_partial_match_not_found:
  assumes "searchCases e db lookupKey = Inr [c]"
    and "2 \<le> length (searchWords_of lookupKey)"
    and "\<not> case_number_hit lookupKey c"
    and "\<exists>sw \<in> set (searchWords_of lookupKey). \<not> word_matches c sw"
  shows "findCase e db lookupKey = Inl (CaseNotFoundError lookupKey)"
proof -
  have short: "length (matchingWords lookupKey c) < length (searchWords_of lookupKey)"
    using assms(4) by (simp add: matchingWords_def filter_shorter_iff)
  then have "length (matchingWords lookupKey c) \<noteq> length (searchWords_of lookupKey)"
    by simp
  with short assms(2,3) have "findCase_on lookupKey [c] = Inl (CaseNotFoundError lookupKey)"
    by (simp add: findCase_on_def)
  with assms(1) show ?thesis
    by (simp add: findCase_def)
qed

theorem findCase_single_partial_match_not_found_witness:
  "searchCases env_ok [a_case ''p3'' ''Priya Patel Divorce'' ''CASE-2025-CCCCC'' ''Priya Patel'']
       ''Priya Sharma''
     = Inr [a_case ''p3'' ''Priya Patel Divorce'' ''CASE-2025-CCCCC'' ''Priya Patel'']
   \<and> findCase env_ok [a_case ''p3'' ''Priya Patel Divorce'' ''CASE-2025-CCCCC'' ''Priya Patel'']
       ''Priya Sharma''
     = Inl (CaseNotFoundError ''Priya Sharma'')"
proof -
  let ?c = "a_case ''p3'' ''Priya Patel Divorce'' ''CASE-2025-CCCCC'' ''Priya Patel''"
  have h1: "searchCases env_ok [?c] ''Priya Sharma'' = Inr [?c]"
    by code_simp
  have h2: "2 \<le> length (searchWords_of ''Priya Sharma'')"
    by code_simp
  have h3: "\<not> case_number_hit ''Priya Sharma'' ?c"
    by code_simp
  have "''sharma'' \<in> set (searchWords_of ''Priya Sharma'')"
    by code_simp
  moreover have "\<not> word_matches ?c ''sharma''"
    by code_simp
  ultimately have h4: "\<exists>sw \<in> set (searchWords_of ''Priya Sharma''). \<not> word_matches ?c sw"
    by blast
  from findCase_single_partial_match_not_found [OF h1 h2 h3 h4] h1 show ?thesis
    by simp
qed

text \<open>
  C3. The store holds one case, \<open>Priya Patel Divorce\<close>, without a client name (a draft
  that still lacks it). The key \<open>Priya Sharma\<close> has two significant words; \<open>sharma\<close> is
  contained in none of the words \<open>priya\<close>, \<open>patel\<close>, \<open>divorce\<close> and contains none of
  them. The absent client name adds an empty token, \<open>'sharma'.includes('')\<close> holds, both
  words count as matched, and \<open>findCase\<close> returns the Priya Patel case, which the update
  branch then updates.
\<close>

theorem findCase_empty_token_false_positive:
  "searchCases env_ok [patel_draft] ''Priya Sharma'' = Inr [patel_draft]
   \<and> searchWords_of ''Priya Sharma'' = [''priya'', ''sharma'']
   \<and> \<not> case_number_hit ''Priya Sharma'' patel_draft
   \<and> allTargetWords patel_draft = [''priya'', ''patel'', ''divorce'', []]
   \<and> \<not> includes_str ''priya'' ''sharma'' \<and> \<not> includes_str ''sharma'' ''priya''
   \<and> \<not> includes_str ''patel'' ''sharma'' \<and> \<not> includes_str ''sharma'' ''patel''
   \<and> \<not> includes_str ''divorce'' ''sharma'' \<and> \<not> includes_str ''sharma'' ''divorce''
   \<and> word_matches patel_draft ''sharma''
   \<and> findCase env_ok [patel_draft] ''Priya Sharma'' = Inr patel_draft
   \<and> r_status (fst (processSingleCase env_ok a_user patel_update (a_world [patel_draft])))
       = UPDATED
   \<and> r_case_name (fst (processSingleCase env_ok a_user patel_update (a_world [patel_draft])))
       = Some ''Priya Patel Divorce''"
  by code_simp

subsection \<open>The two declarations of resolveClientEmail\<close>

text \<open>
  C10. The two declarations of \<open>resolveClientEmail\<close> in the orchestrator class return
  the same address for every candidate email, every actor and every value of
  \<open>DEMO_USER_EMAIL\<close>; they differ in the text they log only.
\<close>

theorem resolveClientEmail_declarations_agree:
  "fst (resolveClientEmail_first u demo email context) = fst (resolveClientEmail u demo email context)"
  by (simp add: resolveClientEmail_first_def resolveClientEmail_def Let_def)

subsection \<open>resolveClientEmail: the fallback policy\<close>

lemma isRealEmail_truthy: "isRealEmail c \<Longrightarrow> truthy c"
  by (cases c) (auto simp: isRealEmail_def truthy_def split: if_splits)

text \<open>
  C8. An actor has an email when \<open>user_email\<close> holds an address, a text that is not
  empty, as it does for every entry of the user registry; an actor without one has
  \<open>None\<close>. For every actor who has an email, \<open>resolveClientEmail\<close> returns that email
  when no candidate is given and when the candidate is classified as not real; and for
  every actor a candidate classified as real is returned unchanged.
\<close>

theorem resolveClientEmail_fallback_policy:
  "(truthy (user_email u) \<longrightarrow>
      fst (resolveClientEmail u demo None context) = user_email u
      \<and> (\<not> isRealEmail candidate \<longrightarrow>
           fst (resolveClientEmail u demo candidate context) = user_email u))
   \<and> (isRealEmail candidate \<longrightarrow> fst (resolveClientEmail u demo candidate context) = candidate)"
  using isRealEmail_truthy [of candidate]
  by (auto simp: resolveClientEmail_def or_else_def Let_def truthy_def isRealEmail_def)

theorem resolveClientEmail_fallback_policy_witness:
  "truthy (user_email a_user)
   \<and> fst (resolveClientEmail a_user None None ''hearing update'') = Some ''lawyer@firm.com''
   \<and> \<not> isRealEmail (Some ''test@example.com'')
   \<and> fst (resolveClientEmail a_user None (Some ''test@example.com'') ''hearing update'')
       = Some ''lawyer@firm.com''
   \<and> isRealEmail (Some ''meera.nair@gmail.com'')
   \<and> fst (resolveClientEmail a_user None (Some ''meera.nair@gmail.com'') ''hearing update'')
       = Some ''meera.nair@gmail.com''"
proof -
  have t: "truthy (user_email a_user)" by code_simp
  have e: "user_email a_user = Some ''lawyer@firm.com''" by code_simp
  have n: "\<not> isRealEmail (Some ''test@example.com'')" by code_simp
  have r: "isRealEmail (Some ''meera.nair@gmail.com'')" by code_simp
  note fake = resolveClientEmail_fallback_policy
                [of a_user None "''hearing update''" "Some ''test@example.com''"]
  note real = resolveClientEmail_fallback_policy
                [of a_user None "''hearing update''" "Some ''meera.nair@gmail.com''"]
  from fake real t e n r show ?thesis by simp
qed

subsection \<open>generateCaseNumber: the random part may be short\<close>

text \<open>
  C9. When \<open>Math.random()\<close> returns 0.5, its base-36 text is \<open>0.i\<close>; the case number
  generated in 2025 is then \<open>CASE-2025-I\<close>, which the pattern \<open>CASE-\d{4}-[A-Z0-9]{5}\<close>
  of the test suite rejects, and Scenario A is created under that number.
\<close>

theorem generateCaseNumber_short_random_text:
  "generateCaseNumber 2025 ''0.i'' = ''CASE-2025-I''
   \<and> \<not> matches_case_pattern (generateCaseNumber 2025 ''0.i'')
   \<and> r_status (fst (processSingleCase (env_ok\<lparr>random36 := ''0.i''\<rparr>) a_user scenario_A
                       (a_world []))) = CREATED
   \<and> r_case_number (fst (processSingleCase (env_ok\<lparr>random36 := ''0.i''\<rparr>) a_user scenario_A
                            (a_world []))) = Some ''CASE-2025-I''"
  by code_simp

subsection \<open>The update branch never writes a case number\<close>

text \<open>
  C7. A case without a case number is located by the key \<open>Sharma\<close>; the payload carries
  the case number \<open>CASE-2025-NEW01\<close>. The patch built in step 3 holds that number, the
  update succeeds, and the stored case still has no case number: \<open>updateCase\<close> has
  no branch for the \<open>case_number\<close> key.
\<close>

theorem case_number_patch_not_persisted:
  "findCase env_ok [numberless_case] ''Sharma'' = Inr numberless_case
   \<and> u_case_number (build_updates a_user number_update numberless_case) = Some ''CASE-2025-NEW01''
   \<and> r_status (fst (processSingleCase env_ok a_user number_update (a_world [numberless_case])))
       = UPDATED
   \<and> map case_number
         (pages (snd (processSingleCase env_ok a_user number_update (a_world [numberless_case]))))
       = [None]"
  by code_simp

subsection \<open>findCase: several candidates\<close>

text \<open>
  C2 as stated fails on its own example. Both cases named after Arun Mehta score 0.95 for
  the key \<open>Arun Mehta\<close>, the best score is at least 0.9, and \<open>findCase\<close> returns the first
  of the two; the update branch goes on to update it.
\<close>

theorem findCase_arun_mehta_auto_selects:
  "searchCases env_ok [arun_contract, arun_property] ''Arun Mehta''
     = Inr [arun_contract, arun_property]
   \<and> similarity ''Arun Mehta'' arun_contract = 95 / 100
   \<and> similarity ''Arun Mehta'' arun_property = 95 / 100
   \<and> findCase env_ok [arun_contract, arun_property] ''Arun Mehta'' = Inr arun_contract
   \<and> r_status (fst (processSingleCase env_ok a_user
                       ((a_payload ''UPDATE_EXISTING'')\<lparr>p_lookup_key := Some ''Arun Mehta''\<rparr>)
                       (a_world [arun_contract, arun_property]))) = UPDATED"
  by code_simp

text \<open>
  The head of a stable sort is the first element with the least key, and the rest of the
  sorted list is the sort of the other elements.
\<close>

lemma sort_key_head_split:
  "xs \<noteq> [] \<Longrightarrow>
   \<exists>b pre post. xs = pre @ b # post \<and> (\<forall>r \<in> set pre. f b < f r) \<and> (\<forall>r \<in> set post. f b \<le> f r)
      \<and> sort_key f xs = b # sort_key f (pre @ post)"
proof (induction xs)
  case Nil
  then show ?case by simp
next
  case (Cons x xs)
  show ?case
  proof (cases "xs = []")
    case True
    then show ?thesis by (intro exI [of _ x] exI [of _ "[]"]) simp
  next
    case False
    with Cons.IH obtain b pre post where
      split: "xs = pre @ b # post" and lo: "\<forall>r \<in> set pre. f b < f r"
      and hi: "\<forall>r \<in> set post. f b \<le> f r"
      and srt: "sort_key f xs = b # sort_key f (pre @ post)"
      by blast
    show ?thesis
    proof (cases "f x \<le> f b")
      case True
      have "\<forall>r \<in> set xs. f x \<le> f r"
        using split lo hi True by auto
      moreover have "sort_key f (x # xs) = x # sort_key f xs"
        using srt True by simp
      ultimately show ?thesis
        by (intro exI [of _ x] exI [of _ "[]"] exI [of _ xs]) simp
    next
      case False
      then have "sort_key f (x # xs) = b # sort_key f (x # pre @ post)"
        using srt by simp
      moreover have "x # xs = (x # pre) @ b # post"
        using split by simp
      moreover have "\<forall>r \<in> set (x # pre). f b < f r"
        using lo False by auto
      ultimately show ?thesis
        using hi by (intro exI [of _ b] exI [of _ "x # pre"] exI [of _ post]) simp
    qed
  qed
qed

lemma filter_full_iff: "length (filter P xs) = length xs \<longleftrightarrow> (\<forall>x \<in> set xs. P x)"
  using filter_shorter_iff [of P xs] length_filter_le [of P xs] by auto

lemma similarity_rule:
  "similarity key r =
     (if case_number_hit key r then 1
      else if 2 \<le> length (searchWords_of key) \<and> (\<forall>sw \<in> set (searchWords_of key). word_matches r sw)
        then 95 / 100
      else (if searchWords_of key = [] then 0
            else of_nat (length (filter (word_matches r) (searchWords_of key)))
                 / of_nat (length (searchWords_of key))) * (7 / 10))"
  by (auto simp: similarity_def score_result_def Let_def matchingWords_def filter_full_iff)

lemma findCase_on_multi:
  assumes "2 \<le> length results"
  shows "\<exists>b pre post.
           results = pre @ b # post
           \<and> (\<forall>r \<in> set pre. similarity key r < similarity key b)
           \<and> (\<forall>r \<in> set post. similarity key r \<le> similarity key b)
           \<and> findCase_on key results =
               (if 9 / 10 \<le> similarity key b
                   \<or> (7 / 10 \<le> similarity key b
                       \<and> (\<forall>r \<in> set (pre @ post). 2 / 10 \<le> similarity key b - similarity key r))
                then Inr b else Inl (DuplicateCaseError (map case_ref_of results)))"
proof -
  let ?f = "\<lambda>r. - similarity key r"
  from assms have ne: "results \<noteq> []" by auto
  from sort_key_head_split [OF ne, of ?f] obtain b pre post where
    split: "results = pre @ b # post" and lo: "\<forall>r \<in> set pre. ?f b < ?f r"
    and hi: "\<forall>r \<in> set post. ?f b \<le> ?f r"
    and srt: "sort_key ?f results = b # sort_key ?f (pre @ post)"
    by blast
  from assms split have ne2: "pre @ post \<noteq> []" by auto
  from sort_key_head_split [OF ne2, of ?f] obtain b2 pre2 post2 where
    split2: "pre @ post = pre2 @ b2 # post2" and lo2: "\<forall>r \<in> set pre2. ?f b2 < ?f r"
    and hi2: "\<forall>r \<in> set post2. ?f b2 \<le> ?f r"
    and srt2: "sort_key ?f (pre @ post) = b2 # sort_key ?f (pre2 @ post2)"
    by blast
  have b2_in: "b2 \<in> set (pre @ post)"
    using split2 by simp
  have b2_top: "\<forall>r \<in> set (pre @ post). similarity key r \<le> similarity key b2"
  proof
    fix r assume "r \<in> set (pre @ post)"
    then have "r \<in> set pre2 \<or> r = b2 \<or> r \<in> set post2"
      using split2 by auto
    then show "similarity key r \<le> similarity key b2"
      using lo2 hi2 by fastforce
  qed
  have gap: "(2 / 10 \<le> similarity key b - similarity key b2)
             \<longleftrightarrow> (\<forall>r \<in> set (pre @ post). 2 / 10 \<le> similarity key b - similarity key r)"
  proof
    assume g: "2 / 10 \<le> similarity key b - similarity key b2"
    show "\<forall>r \<in> set (pre @ post). 2 / 10 \<le> similarity key b - similarity key r"
    proof
      fix r assume "r \<in> set (pre @ post)"
      with b2_top have "similarity key r \<le> similarity key b2" by blast
      with g show "2 / 10 \<le> similarity key b - similarity key r" by linarith
    qed
  next
    assume "\<forall>r \<in> set (pre @ post). 2 / 10 \<le> similarity key b - similarity key r"
    with b2_in show "2 / 10 \<le> similarity key b - similarity key b2" by blast
  qed
  have first: "sort_key ?f results ! 0 = b" and second: "sort_key ?f results ! 1 = b2"
    using srt srt2 by simp_all
  have many: "\<not> length results = 0" "length results > 1"
    using assms by auto
  have "findCase_on key results =
          (if 9 / 10 \<le> similarity key b
              \<or> (7 / 10 \<le> similarity key b \<and> 2 / 10 \<le> similarity key b - similarity key b2)
           then Inr b else Inl (DuplicateCaseError (map case_ref_of results)))"
    unfolding findCase_on_def Let_def first second using many by simp
  with gap have "findCase_on key results =
          (if 9 / 10 \<le> similarity key b
              \<or> (7 / 10 \<le> similarity key b
                  \<and> (\<forall>r \<in> set (pre @ post). 2 / 10 \<le> similarity key b - similarity key r))
           then Inr b else Inl (DuplicateCaseError (map case_ref_of results)))"
    by simp
  moreover have "\<forall>r \<in> set pre. similarity key r < similarity key b"
    using lo by simp
  moreover have "\<forall>r \<in> set post. similarity key r \<le> similarity key b"
    using hi by simp
  ultimately show ?thesis
    using split by blast
qed

text \<open>
  The tokens of a candidate are the pieces of \<open>split(/\s+/)\<close> of its case name and of its
  client name. None of them is empty exactly when both names are present and neither
  starts nor ends with white space.
\<close>

lemma split_ws_nonempty [simp]: "split_ws s \<noteq> []"
  by (induction s rule: split_ws.induct) (auto split: list.splits)

lemma split_ws_hd_Nil: "hd (split_ws s) = [] \<longleftrightarrow> s = [] \<or> is_space (hd s)"
  by (induction s rule: split_ws.induct) (auto split: list.splits)

lemma split_ws_tl_Nil: "[] \<in> set (tl (split_ws s)) \<longleftrightarrow> s \<noteq> [] \<and> is_space (last s)"
proof (induction s rule: split_ws.induct)
  case 1
  then show ?case by simp
next
  case (2 c cs)
  have mem: "[] \<in> set (split_ws cs) \<longleftrightarrow> hd (split_ws cs) = [] \<or> [] \<in> set (tl (split_ws cs))"
    using split_ws_nonempty [of cs] by (cases "split_ws cs") auto
  show ?case
    using 2 mem split_ws_hd_Nil [of cs] split_ws_nonempty [of cs]
    by (cases "split_ws cs") (auto split: if_splits)
qed

lemma split_ws_no_empty:
  "[] \<notin> set (split_ws s) \<longleftrightarrow> s \<noteq> [] \<and> \<not> is_space (hd s) \<and> \<not> is_space (last s)"
proof -
  have "[] \<in> set (split_ws s) \<longleftrightarrow> hd (split_ws s) = [] \<or> [] \<in> set (tl (split_ws s))"
    using split_ws_nonempty [of s] by (cases "split_ws s") auto
  then show ?thesis
    using split_ws_hd_Nil [of s] split_ws_tl_Nil [of s] by auto
qed

lemma toLowerChar_space [simp]: "is_space (toLowerChar c) = is_space c"
  by (auto simp: toLowerChar_def is_space_def Let_def)

lemma allTargetWords_no_empty:
  "[] \<notin> set (allTargetWords r) \<longleftrightarrow>
     (\<exists>nm cl. case_name r = Some nm \<and> client_name r = Some cl
        \<and> nm \<noteq> [] \<and> \<not> is_space (hd nm) \<and> \<not> is_space (last nm)
        \<and> cl \<noteq> [] \<and> \<not> is_space (hd cl) \<and> \<not> is_space (last cl))"
  by (cases "case_name r"; cases "client_name r")
     (auto simp: allTargetWords_def split_ws_no_empty or_str_def toLowerCase_def hd_map last_map)

text \<open>
  C2, as amended. The store search returns two or more candidates. A candidate whose case
  name and client name give no empty token (both are present, and neither starts nor ends
  with white space) scores 1 for a case-number hit (its case number, longer than 5, is
  contained in the key), else 0.95 when the key has at least two significant words and
  every one of them matches a word of the candidate, else 0.7 times the share of matched
  words (0 for a key without significant words); nothing is said here of the score of a
  candidate with an empty token. \<open>findCase\<close> picks the top-scoring candidate, the first
  in search order among equals, and returns it exactly when its score is at least 0.9, or
  at least 0.7 and at least 0.2 above every other candidate; otherwise it raises
  \<open>DuplicateCaseError\<close> with the identifier, name and number of every candidate.
\<close>

theorem findCase_multi_candidate_rule:
  assumes "searchCases e db key = Inr results" and "2 \<le> length results"
  shows "(\<forall>r. [] \<notin> set (allTargetWords r) \<longrightarrow>
            similarity key r =
              (if case_number_hit key r then 1
               else if 2 \<le> length (searchWords_of key)
                       \<and> (\<forall>sw \<in> set (searchWords_of key). word_matches r sw)
                 then 95 / 100
               else (if searchWords_of key = [] then 0
                     else of_nat (length (filter (word_matches r) (searchWords_of key)))
                          / of_nat (length (searchWords_of key))) * (7 / 10)))
         \<and> (\<exists>b pre post.
               results = pre @ b # post
               \<and> (\<forall>r \<in> set pre. similarity key r < similarity key b)
               \<and> (\<forall>r \<in> set post. similarity key r \<le> similarity key b)
               \<and> findCase e db key =
                   (if 9 / 10 \<le> similarity key b
                       \<or> (7 / 10 \<le> similarity key b
                           \<and> (\<forall>r \<in> set (pre @ post).
                                 2 / 10 \<le> similarity key b - similarity key r))
                    then Inr b else Inl (DuplicateCaseError (map case_ref_of results))))"
proof -
  have "findCase e db key = findCase_on key results"
    using assms(1) by (simp add: findCase_def)
  with findCase_on_multi [OF assms(2), of key] similarity_rule show ?thesis
    by simp
qed

text \<open>
  The rule at work on the two cases named after Arun Mehta. For the key \<open>Arun Mehta\<close> both
  score 0.95 and the first is returned; for the key \<open>Mehta\<close> both score 0.7, neither is
  0.2 above the other, and the clarification lists both.
\<close>

theorem findCase_multi_candidate_rule_witness:
  "searchCases env_ok [arun_contract, arun_property] ''Arun Mehta''
     = Inr [arun_contract, arun_property]
   \<and> [] \<notin> set (allTargetWords arun_contract) \<and> [] \<notin> set (allTargetWords arun_property)
   \<and> similarity ''Arun Mehta'' arun_contract = 95 / 100
   \<and> similarity ''Arun Mehta'' arun_property = 95 / 100
   \<and> findCase env_ok [arun_contract, arun_property] ''Arun Mehta'' = Inr arun_contract
   \<and> searchCases env_ok [arun_contract, arun_property] ''Mehta''
       = Inr [arun_contract, arun_property]
   \<and> similarity ''Mehta'' arun_contract = 7 / 10
   \<and> similarity ''Mehta'' arun_property = 7 / 10
   \<and> findCase env_ok [arun_contract, arun_property] ''Mehta''
       = Inl (DuplicateCaseError [case_ref_of arun_contract, case_ref_of arun_property])"
proof -
  let ?db = "[arun_contract, arun_property]"
  have two: "2 \<le> length ?db"
    by simp
  have t1: "[] \<notin> set (allTargetWords arun_contract)"
    and t2: "[] \<notin> set (allTargetWords arun_property)"
    by code_simp+
  have a1: "searchCases env_ok ?db ''Arun Mehta'' = Inr ?db"
    by code_simp
  have aw: "searchWords_of ''Arun Mehta'' = [''arun'', ''mehta'']"
    by code_simp
  have an: "\<not> case_number_hit ''Arun Mehta'' arun_contract"
    "\<not> case_number_hit ''Arun Mehta'' arun_property"
    by code_simp+
  have am: "word_matches arun_contract ''arun''" "word_matches arun_contract ''mehta''"
    "word_matches arun_property ''arun''" "word_matches arun_property ''mehta''"
    by code_simp+
  note arun = findCase_multi_candidate_rule [OF a1 two]
  from arun t1 an aw am have as1: "similarity ''Arun Mehta'' arun_contract = 95 / 100"
    by simp
  from arun t2 an aw am have as2: "similarity ''Arun Mehta'' arun_property = 95 / 100"
    by simp
  from arun obtain b pre post where
    split: "?db = pre @ b # post"
    and lo: "\<forall>r \<in> set pre. similarity ''Arun Mehta'' r < similarity ''Arun Mehta'' b"
    and res: "findCase env_ok ?db ''Arun Mehta'' =
                (if 9 / 10 \<le> similarity ''Arun Mehta'' b
                    \<or> (7 / 10 \<le> similarity ''Arun Mehta'' b
                        \<and> (\<forall>r \<in> set (pre @ post).
                              2 / 10 \<le> similarity ''Arun Mehta'' b - similarity ''Arun Mehta'' r))
                 then Inr b else Inl (DuplicateCaseError (map case_ref_of ?db)))"
    by blast
  from split lo as1 as2 have "pre = [] \<and> b = arun_contract \<and> post = [arun_property]"
    by (auto simp: Cons_eq_append_conv)
  with res as1 have ar: "findCase env_ok ?db ''Arun Mehta'' = Inr arun_contract"
    by simp
  have m1: "searchCases env_ok ?db ''Mehta'' = Inr ?db"
    by code_simp
  have mw: "searchWords_of ''Mehta'' = [''mehta'']"
    by code_simp
  have mn: "\<not> case_number_hit ''Mehta'' arun_contract" "\<not> case_number_hit ''Mehta'' arun_property"
    by code_simp+
  note mehta = findCase_multi_candidate_rule [OF m1 two]
  from mehta t1 mn mw am have ms1: "similarity ''Mehta'' arun_contract = 7 / 10"
    by simp
  from mehta t2 mn mw am have ms2: "similarity ''Mehta'' arun_property = 7 / 10"
    by simp
  from mehta obtain b' pre' post' where
    split': "?db = pre' @ b' # post'"
    and lo': "\<forall>r \<in> set pre'. similarity ''Mehta'' r < similarity ''Mehta'' b'"
    and res': "findCase env_ok ?db ''Mehta'' =
                 (if 9 / 10 \<le> similarity ''Mehta'' b'
                     \<or> (7 / 10 \<le> similarity ''Mehta'' b'
                         \<and> (\<forall>r \<in> set (pre' @ post').
                               2 / 10 \<le> similarity ''Mehta'' b' - similarity ''Mehta'' r))
                  then Inr b' else Inl (DuplicateCaseError (map case_ref_of ?db)))"
    by blast
  from split' lo' ms1 ms2 have "pre' = [] \<and> b' = arun_contract \<and> post' = [arun_property]"
    by (auto simp: Cons_eq_append_conv)
  with res' ms1 ms2 have mr: "findCase env_ok ?db ''Mehta''
       = Inl (DuplicateCaseError [case_ref_of arun_contract, case_ref_of arun_property])"
    by simp
  from a1 t1 t2 as1 as2 ar m1 ms1 ms2 mr show ?thesis
    by simp
qed

subsection \<open>The create branch\<close>

lemma world_steps [simp]:
  "pages (log_op t w) = pages w" "calls (log_op t w) = calls w"
  "pages (do_call c w) = pages w" "calls (do_call c w) = calls w @ [c]"
  "pages (addHistoryEntry e i sg txt w) = pages w"
  "calls (addHistoryEntry e i sg txt w) = calls w"
  by (simp_all add: log_op_def do_call_def addHistoryEntry_def)

lemma handleDocumentRequest_pages [simp]:
  "pages (handleDocumentRequest u docs mail w) = pages w"
  by (simp add: handleDocumentRequest_def Let_def)

lemma set_uniq [simp]: "set (uniq xs) = set xs"
  by (induction xs rule: uniq.induct) auto

lemma prepared_fields [simp]:
  "p_missing_fields (prepared_payload e u p) = Some (allMissingFields_of u p)"
  "p_next_hearing_date (prepared_payload e u p) = p_next_hearing_date p"
  "p_case_name (prepared_payload e u p) = p_case_name p"
  "p_client_name (prepared_payload e u p) = p_client_name p"
  by (simp_all add: prepared_payload_def Let_def)

lemma first_duplicate_names:
  "p_client_name p = p_client_name q \<Longrightarrow> p_case_name p = p_case_name q \<Longrightarrow>
     first_duplicate p rs = first_duplicate q rs"
  by (induction rs) (simp_all add: Let_def)

lemma checkDuplicateCase_prepared [simp]:
  "checkDuplicateCase e db (prepared_payload e u p) = checkDuplicateCase e db p"
proof -
  have fd: "first_duplicate (prepared_payload e u p) = first_duplicate p"
    by (rule ext, rule first_duplicate_names) simp_all
  show ?thesis
    unfolding checkDuplicateCase_def duplicate_searchKey_def fd prepared_fields ..
qed

text \<open>What createCase can do: fail and leave the state as it is, or append one row.\<close>

lemma createCase_outcomes:
  "(\<exists>err. createCase e u cd w = (Inl err, w))
   \<or> (\<exists>cr w' page. createCase e u cd w = (Inr cr, w')
         \<and> cr_is_draft cr = nonempty (p_missing_fields cd)
         \<and> cr_id cr = new_page_id e
         \<and> calls w' = calls w
         \<and> pages w' = pages w @ [page]
         \<and> case_id page = new_page_id e
         \<and> status page = Some (if nonempty (p_missing_fields cd) then status_DRAFT
                                else status_ACTIVE))"
  by (auto simp: createCase_def Let_def new_page_def split: option.splits)

lemma createCase_succeeds:
  assumes "init_ok e" and "checkDuplicateCase e (pages w) cd = None" and "create_ok e"
    and "truthy (p_next_hearing_date cd) \<longrightarrow> date_valid e (the (p_next_hearing_date cd))"
  shows "\<exists>cr w'. createCase e u cd w = (Inr cr, w')"
  using assms by (simp add: createCase_def Let_def)

lemma active_case_followup_effect:
  "pages (snd (active_case_followup e u cd r0 w)) = pages w
   \<and> (\<forall>r w'. active_case_followup e u cd r0 w = (Inr r, w') \<longrightarrow> r_status r = r_status r0)"
  by (auto simp: active_case_followup_def call_createHearingEvent_def Let_def
           split: prod.splits cal_outcome.splits if_splits)

lemma active_case_followup_succeeds:
  "hearing_event_outcome e \<noteq> CalAuthFailed \<Longrightarrow>
     \<exists>r w'. active_case_followup e u cd r0 w = (Inr r, w')"
  by (auto simp: active_case_followup_def call_createHearingEvent_def Let_def
           split: prod.splits cal_outcome.splits if_splits)

lemma active_case_followup_error:
  "active_case_followup e u cd r0 w = (Inl err, w') \<Longrightarrow>
     err = ExternalServiceError ''Google Calendar'' ''Authentication failed. Please re-authorize.''"
  by (auto simp: active_case_followup_def call_createHearingEvent_def Let_def
           split: prod.splits cal_outcome.splits if_splits)

lemma handleNewCase_duplicate:
  assumes "createCase e u (prepared_payload e u p) w = (Inl (CaseAlreadyExistsError x), w1)"
  shows "handleNewCase e u p w =
           ((result_of DUPLICATE_CASE (p_case_name p))
              \<lparr> r_existing_case :=
                  Some (case_id x, case_name x, case_number x, notion_url (case_id x)) \<rparr>,
            log_op ''DUPLICATE_CASE'' w1)"
  using assms by (simp add: handleNewCase_def Let_def)

lemma handleNewCase_failure:
  assumes "createCase e u (prepared_payload e u p) w = (Inl err, w1)"
  shows "r_status (fst (handleNewCase e u p w)) \<in> {DUPLICATE_CASE, ERROR}
         \<and> pages (snd (handleNewCase e u p w)) = pages w1
         \<and> calls (snd (handleNewCase e u p w)) = calls w1"
  using assms by (cases err) (simp_all add: handleNewCase_def Let_def result_of_def)

lemma handleNewCase_draft:
  assumes "createCase e u (prepared_payload e u p) w = (Inr cr, w1)" and "cr_is_draft cr"
  shows "handleNewCase e u p w =
           ((result_of CREATED_AS_DRAFT (p_case_name p))
              \<lparr> r_case_id := Some (cr_id cr),
                r_case_number := Some (cr_case_number cr),
                r_is_draft := Some True,
                r_missing_fields := Some (allMissingFields_of u p),
                r_actions := [''Created as draft - awaiting complete information''] \<rparr>,
            log_op ''NOTION_CREATE'' w1)"
  using assms by (simp add: handleNewCase_def Let_def)

lemma handleNewCase_active:
  assumes "createCase e u (prepared_payload e u p) w = (Inr cr, w1)" and "\<not> cr_is_draft cr"
  shows "r_status (fst (handleNewCase e u p w)) \<in> {CREATED, ERROR}
         \<and> pages (snd (handleNewCase e u p w)) = pages w1
         \<and> (hearing_event_outcome e \<noteq> CalAuthFailed \<longrightarrow>
              r_status (fst (handleNewCase e u p w)) = CREATED
              \<and> r_is_draft (fst (handleNewCase e u p w)) = Some False)"
proof -
  let ?cd = "prepared_payload e u p"
  let ?r0 = "(result_of CREATED (p_case_name ?cd))
               \<lparr> r_case_id := Some (cr_id cr), r_case_number := Some (cr_case_number cr),
                 r_is_draft := Some False,
                 r_missing_fields := Some (allMissingFields_of u p) \<rparr>"
  let ?w2 = "log_op ''NOTION_CREATE'' w1"
  obtain out w3 where fu: "active_case_followup e u ?cd ?r0 ?w2 = (out, w3)"
    by fastforce
  have pg: "pages w3 = pages w1"
    using active_case_followup_effect [of e u ?cd ?r0 ?w2] fu by simp
  show ?thesis
  proof (cases out)
    case (Inl err)
    with fu have "err = ExternalServiceError ''Google Calendar''
                          ''Authentication failed. Please re-authorize.''"
      using active_case_followup_error by blast
    moreover from this Inl fu have "hearing_event_outcome e = CalAuthFailed"
      using active_case_followup_succeeds [of e u ?cd ?r0 ?w2] by auto
    ultimately show ?thesis
      using assms fu Inl pg by (simp add: handleNewCase_def Let_def result_of_def)
  next
    case (Inr r)
    with fu have st: "r_status r = CREATED"
      using active_case_followup_effect [of e u ?cd ?r0 ?w2] by (simp add: result_of_def)
    from fu Inr have dr: "r_is_draft r = Some False"
      by (auto simp: active_case_followup_def call_createHearingEvent_def Let_def result_of_def
               split: prod.splits cal_outcome.splits if_splits)
    show ?thesis
      using assms fu Inr pg st dr by (simp add: handleNewCase_def Let_def)
  qed
qed

lemma missing_field_named:
  "(\<not> truthy (p_case_name p) \<longrightarrow> ''case_name'' \<in> set (allMissingFields_of u p))
   \<and> (\<not> truthy (p_client_name p) \<longrightarrow> ''client_name'' \<in> set (allMissingFields_of u p))
   \<and> (\<not> truthy (p_client_email p) \<longrightarrow> ''client_email'' \<in> set (allMissingFields_of u p))"
  by (simp add: allMissingFields_of_def missingFields_of_def)

lemma uniq_Nil_iff [simp]: "uniq xs = [] \<longleftrightarrow> xs = []"
  by (cases xs) simp_all

text \<open>
  A next hearing date that is no date stops the creation: \<open>formatDateForNotion\<close> throws
  while the properties of the new row are built, nothing is persisted and no service is
  called, and the result is ERROR.
\<close>

lemma create_with_invalid_date_is_error:
  assumes "init_ok e" and "checkDuplicateCase e (pages w) p = None"
    and "truthy (p_next_hearing_date p)" and "\<not> date_valid e (the (p_next_hearing_date p))"
  shows "r_status (fst (handleNewCase e u p w)) = ERROR
         \<and> pages (snd (handleNewCase e u p w)) = pages w
         \<and> calls (snd (handleNewCase e u p w)) = calls w"
proof -
  have "createCase e u (prepared_payload e u p) w
          = (Inl (ExternalServiceError ''Notion'' ''Invalid time value''), w)"
    using assms by (simp add: createCase_def Let_def)
  then show ?thesis
    by (simp add: handleNewCase_def Let_def result_of_def)
qed

text \<open>
  C6, as amended. A CREATE_NEW payload that lacks \<open>case_name\<close>, \<open>client_name\<close> or
  \<open>client_email\<close> makes the create branch call neither the email nor the calendar
  service, whatever else happens. If the store is reachable and accepts the new row, the
  next hearing date, when the payload has one, is a valid date, and no duplicate is
  detected, then the case is persisted with status Draft and reported as CREATED_AS_DRAFT,
  and every missing required field is named in the result's \<open>missing_fields\<close>.
\<close>

theorem incomplete_create_is_draft_and_silent:
  assumes "\<not> truthy (p_case_name p) \<or> \<not> truthy (p_client_name p) \<or> \<not> truthy (p_client_email p)"
  shows "calls (snd (handleNewCase e u p w)) = calls w
         \<and> (init_ok e \<and> create_ok e
              \<and> (truthy (p_next_hearing_date p) \<longrightarrow> date_valid e (the (p_next_hearing_date p)))
              \<and> checkDuplicateCase e (pages w) p = None
            \<longrightarrow> r_status (fst (handleNewCase e u p w)) = CREATED_AS_DRAFT
                \<and> r_is_draft (fst (handleNewCase e u p w)) = Some True
                \<and> r_missing_fields (fst (handleNewCase e u p w)) = Some (allMissingFields_of u p)
                \<and> (\<not> truthy (p_case_name p) \<longrightarrow> ''case_name'' \<in> set (allMissingFields_of u p))
                \<and> (\<not> truthy (p_client_name p) \<longrightarrow> ''client_name'' \<in> set (allMissingFields_of u p))
                \<and> (\<not> truthy (p_client_email p) \<longrightarrow> ''client_email'' \<in> set (allMissingFields_of u p))
                \<and> (\<exists>page. pages (snd (handleNewCase e u p w)) = pages w @ [page]
                           \<and> case_id page = new_page_id e
                           \<and> status page = Some status_DRAFT))"
proof -
  let ?cd = "prepared_payload e u p"
  from assms have "missingFields_of u p \<noteq> []"
    by (auto simp: missingFields_of_def)
  then have draft: "nonempty (p_missing_fields ?cd)"
    by (simp add: nonempty_def allMissingFields_of_def)
  from createCase_outcomes [of e u ?cd w]
  consider (fail) err where "createCase e u ?cd w = (Inl err, w)"
    | (ok) cr w1 page where "createCase e u ?cd w = (Inr cr, w1)"
        "cr_is_draft cr" "calls w1 = calls w" "pages w1 = pages w @ [page]"
        "case_id page = new_page_id e" "status page = Some status_DRAFT"
    using draft by auto
  then show ?thesis
  proof cases
    case fail
    have "\<not> (init_ok e \<and> create_ok e
              \<and> (truthy (p_next_hearing_date p) \<longrightarrow> date_valid e (the (p_next_hearing_date p)))
              \<and> checkDuplicateCase e (pages w) p = None)"
    proof
      assume "init_ok e \<and> create_ok e
              \<and> (truthy (p_next_hearing_date p) \<longrightarrow> date_valid e (the (p_next_hearing_date p)))
              \<and> checkDuplicateCase e (pages w) p = None"
      then have "\<exists>cr w'. createCase e u ?cd w = (Inr cr, w')"
        by (intro createCase_succeeds) simp_all
      with fail show False by simp
    qed
    with handleNewCase_failure [OF fail] show ?thesis by blast
  next
    case ok
    from handleNewCase_draft [OF ok(1,2)] ok(3-6) missing_field_named [of p u] show ?thesis
      by (simp add: result_of_def)
  qed
qed

theorem incomplete_create_is_draft_and_silent_witness:
  "\<not> truthy (p_client_email incomplete_create)
   \<and> calls (snd (handleNewCase env_ok a_user incomplete_create (a_world [priya_estate]))) = []
   \<and> r_status (fst (handleNewCase env_ok a_user incomplete_create (a_world [priya_estate])))
       = CREATED_AS_DRAFT
   \<and> r_missing_fields (fst (handleNewCase env_ok a_user incomplete_create (a_world [priya_estate])))
       = Some [''client_email'']"
proof -
  have miss: "\<not> truthy (p_case_name incomplete_create) \<or> \<not> truthy (p_client_name incomplete_create)
              \<or> \<not> truthy (p_client_email incomplete_create)"
    by code_simp
  have ok: "init_ok env_ok \<and> create_ok env_ok
            \<and> (truthy (p_next_hearing_date incomplete_create)
                \<longrightarrow> date_valid env_ok (the (p_next_hearing_date incomplete_create)))
            \<and> checkDuplicateCase env_ok (pages (a_world [priya_estate])) incomplete_create = None"
    by code_simp
  have fields: "allMissingFields_of a_user incomplete_create = [''client_email'']"
    by code_simp
  have none: "calls (a_world [priya_estate]) = []"
    by code_simp
  have mail: "\<not> truthy (p_client_email incomplete_create)"
    by code_simp
  from incomplete_create_is_draft_and_silent [OF miss, of env_ok a_user "a_world [priya_estate]"]
       ok fields none mail
  show ?thesis by simp
qed


text \<open>
  C6 as stated fails when the incomplete payload collides with an existing case: the
  payload below has no client email, its client is the client of a stored case, and the
  result is DUPLICATE_CASE with nothing persisted.
\<close>

theorem incomplete_create_duplicate_not_persisted:
  "\<not> truthy (p_client_email incomplete_duplicate)
   \<and> r_status (fst (processSingleCase env_ok a_user incomplete_duplicate (a_world [priya_estate])))
       = DUPLICATE_CASE
   \<and> pages (snd (processSingleCase env_ok a_user incomplete_duplicate (a_world [priya_estate])))
       = [priya_estate]"
  by code_simp

text \<open>
  C4, as amended. A CREATE_NEW payload that carries \<open>case_name\<close>, \<open>client_name\<close> and
  \<open>client_email\<close>, for which the extractor flagged no missing field, and which does not ask
  a SENIOR actor for a junior assignment while no junior email is known, is never reported
  as CREATED_AS_DRAFT, and a row it adds to the store has status Active. If moreover the
  store is reachable and accepts the new row, the next hearing date, when the payload has
  one, is a valid date, no duplicate is detected, and the calendar does not fail
  authentication, then the case is persisted with status Active and reported as CREATED.
\<close>

theorem complete_create_is_active:
  assumes "truthy (p_case_name p)" and "truthy (p_client_name p)" and "truthy (p_client_email p)"
    and "list_or_empty (p_missing_fields p) = []"
    and "\<not> (user_role u = ''SENIOR'' \<and> p_assign_to_junior p
             \<and> \<not> truthy (p_junior_email p) \<and> \<not> truthy (user_junior_email u))"
  shows "r_status (fst (handleNewCase e u p w)) \<noteq> CREATED_AS_DRAFT
         \<and> (pages (snd (handleNewCase e u p w)) = pages w
             \<or> (\<exists>page. pages (snd (handleNewCase e u p w)) = pages w @ [page]
                        \<and> status page = Some status_ACTIVE))
         \<and> (init_ok e \<and> create_ok e
              \<and> (truthy (p_next_hearing_date p) \<longrightarrow> date_valid e (the (p_next_hearing_date p)))
              \<and> checkDuplicateCase e (pages w) p = None
              \<and> hearing_event_outcome e \<noteq> CalAuthFailed
            \<longrightarrow> r_status (fst (handleNewCase e u p w)) = CREATED
                \<and> r_is_draft (fst (handleNewCase e u p w)) = Some False
                \<and> (\<exists>page. pages (snd (handleNewCase e u p w)) = pages w @ [page]
                           \<and> case_id page = new_page_id e
                           \<and> status page = Some status_ACTIVE))"
proof -
  let ?cd = "prepared_payload e u p"
  from assms have "allMissingFields_of u p = []"
    by (auto simp: allMissingFields_of_def missingFields_of_def)
  then have active: "\<not> nonempty (p_missing_fields ?cd)"
    by (simp add: nonempty_def)
  from createCase_outcomes [of e u ?cd w]
  consider (fail) err where "createCase e u ?cd w = (Inl err, w)"
    | (ok) cr w1 page where "createCase e u ?cd w = (Inr cr, w1)"
        "\<not> cr_is_draft cr" "pages w1 = pages w @ [page]"
        "case_id page = new_page_id e" "status page = Some status_ACTIVE"
    using active by auto
  then show ?thesis
  proof cases
    case fail
    have "\<not> (init_ok e \<and> create_ok e
              \<and> (truthy (p_next_hearing_date p) \<longrightarrow> date_valid e (the (p_next_hearing_date p)))
              \<and> checkDuplicateCase e (pages w) p = None
              \<and> hearing_event_outcome e \<noteq> CalAuthFailed)"
    proof
      assume "init_ok e \<and> create_ok e
              \<and> (truthy (p_next_hearing_date p) \<longrightarrow> date_valid e (the (p_next_hearing_date p)))
              \<and> checkDuplicateCase e (pages w) p = None
              \<and> hearing_event_outcome e \<noteq> CalAuthFailed"
      then have "\<exists>cr w'. createCase e u ?cd w = (Inr cr, w')"
        by (intro createCase_succeeds) simp_all
      with fail show False by simp
    qed
    with handleNewCase_failure [OF fail] show ?thesis by auto
  next
    case ok
    from handleNewCase_active [OF ok(1,2)] ok(3-5) show ?thesis
      by auto
  qed
qed

theorem complete_create_is_active_witness:
  "truthy (p_case_name scenario_A) \<and> truthy (p_client_name scenario_A)
   \<and> truthy (p_client_email scenario_A)
   \<and> checkDuplicateCase env_ok (pages (a_world [priya_estate])) scenario_A = None
   \<and> r_status (fst (handleNewCase env_ok a_user scenario_A (a_world [priya_estate]))) = CREATED
   \<and> r_is_draft (fst (handleNewCase env_ok a_user scenario_A (a_world [priya_estate])))
       = Some False"
proof -
  have h1: "truthy (p_case_name scenario_A)" and h2: "truthy (p_client_name scenario_A)"
    and h3: "truthy (p_client_email scenario_A)"
    and h4: "list_or_empty (p_missing_fields scenario_A) = []"
    and h5: "\<not> (user_role a_user = ''SENIOR'' \<and> p_assign_to_junior scenario_A
                \<and> \<not> truthy (p_junior_email scenario_A) \<and> \<not> truthy (user_junior_email a_user))"
    by code_simp+
  have ok: "init_ok env_ok \<and> create_ok env_ok
            \<and> (truthy (p_next_hearing_date scenario_A)
                \<longrightarrow> date_valid env_ok (the (p_next_hearing_date scenario_A)))
            \<and> checkDuplicateCase env_ok (pages (a_world [priya_estate])) scenario_A = None
            \<and> hearing_event_outcome env_ok \<noteq> CalAuthFailed"
    by code_simp
  from complete_create_is_active [OF h1 h2 h3 h4 h5, of env_ok "a_world [priya_estate]"] ok h1 h2 h3
  show ?thesis by simp
qed


text \<open>
  C4 as stated fails when the extractor itself flags a missing field: Scenario A with
  \<open>missing_fields = [court_name]\<close> has all three required fields and no duplicate, and is
  persisted as a draft.
\<close>

theorem complete_create_flagged_by_extractor_is_draft:
  "truthy (p_case_name flagged_create) \<and> truthy (p_client_name flagged_create)
   \<and> truthy (p_client_email flagged_create)
   \<and> checkDuplicateCase env_ok [] flagged_create = None
   \<and> r_status (fst (processSingleCase env_ok a_user flagged_create (a_world [])))
       = CREATED_AS_DRAFT
   \<and> map status (pages (snd (processSingleCase env_ok a_user flagged_create (a_world []))))
       = [Some ''Draft'']"
  by code_simp

lemma first_duplicate_find: "first_duplicate p rs = find (is_duplicate_of p) rs"
  by (induction rs) (auto simp: is_duplicate_of_def Let_def)

lemma find_first_split:
  assumes "x \<in> set xs" and "P x"
  shows "\<exists>pre y post. xs = pre @ y # post \<and> (\<forall>z \<in> set pre. \<not> P z) \<and> P y \<and> find P xs = Some y"
proof -
  from assms have "\<exists>z \<in> set xs. P z" by blast
  then obtain pre y post where sp: "xs = pre @ y # post" "P y" "\<forall>z \<in> set pre. \<not> P z"
    using split_list_first_prop [of xs P] by blast
  from sp(3) have "find P (pre @ y # post) = find P (y # post)"
    by (induction pre) simp_all
  with sp show ?thesis by auto
qed

lemma find_skips_prefix:
  "(\<forall>z \<in> set pre. \<not> P z) \<Longrightarrow> P x \<Longrightarrow> find P (pre @ x # post) = Some x"
  by (induction pre) simp_all

lemma searchCases_Inr_ok: "searchCases e db q = Inr rs \<Longrightarrow> init_ok e \<and> query_ok e"
  by (auto simp: searchCases_def split: if_splits)

lemma createCase_duplicate:
  assumes "init_ok e" and "checkDuplicateCase e (pages w) cd = Some y"
  shows "createCase e u cd w = (Inl (CaseAlreadyExistsError y), w)"
  using assms by (simp add: createCase_def)

text \<open>
  C5, as amended. The payload's client name has at least three characters and is not blank,
  the store search for it returns \<open>results\<close>, and some result \<open>x\<close> that is not a
  placeholder has the same trimmed, case-folded client name. Then nothing is persisted and
  the result is DUPLICATE_CASE carrying identifier, case name and case number of the first
  result, in search order, that meets one of the duplicate rules; that result is \<open>x\<close>
  itself whenever only placeholders precede \<open>x\<close>.
\<close>

theorem duplicate_client_is_reported:
  assumes "truthy (p_client_name p)" and "3 \<le> length (the (p_client_name p))"
    and "searchCases e (pages w) (the (p_client_name p)) = Inr results"
    and "x \<in> set results" and "\<not> is_placeholder x"
    and "trim (toLowerCase (or_str (client_name x) []))
           = trim (toLowerCase (the (p_client_name p)))"
    and "trim (toLowerCase (the (p_client_name p))) \<noteq> []"
  shows "pages (snd (handleNewCase e u p w)) = pages w
         \<and> r_status (fst (handleNewCase e u p w)) = DUPLICATE_CASE
         \<and> (\<exists>pre y post.
               results = pre @ y # post \<and> (\<forall>z \<in> set pre. \<not> is_duplicate_of p z)
               \<and> is_duplicate_of p y
               \<and> r_existing_case (fst (handleNewCase e u p w))
                   = Some (case_id y, case_name y, case_number y, notion_url (case_id y)))
         \<and> (\<forall>pre post.
               results = pre @ x # post \<and> (\<forall>z \<in> set pre. is_placeholder z)
               \<longrightarrow> r_existing_case (fst (handleNewCase e u p w))
                     = Some (case_id x, case_name x, case_number x, notion_url (case_id x)))"
proof -
  from assms(1) obtain cn where cn: "p_client_name p = Some cn" "cn \<noteq> []"
    by (auto simp: truthy_def split: option.splits)
  have name: "or_str (p_client_name p) [] = cn"
    using cn by (simp add: or_str_def)
  have hit: "is_duplicate_of p x"
    using assms(5,6,7) cn name by (simp add: is_duplicate_of_def is_placeholder_def Let_def)
  have chk: "checkDuplicateCase e (pages w) p = find (is_duplicate_of p) results"
    using assms(1,2,3) cn
    by (simp add: checkDuplicateCase_def duplicate_searchKey_def first_duplicate_find)
  from find_first_split [of x results "is_duplicate_of p"] assms(4) hit obtain pre y post where
    sp: "results = pre @ y # post" "\<forall>z \<in> set pre. \<not> is_duplicate_of p z" "is_duplicate_of p y"
    and fd: "find (is_duplicate_of p) results = Some y"
    by blast
  have init: "init_ok e"
    using searchCases_Inr_ok [OF assms(3)] by simp
  have run: "handleNewCase e u p w =
               ((result_of DUPLICATE_CASE (p_case_name p))
                  \<lparr> r_existing_case :=
                      Some (case_id y, case_name y, case_number y, notion_url (case_id y)) \<rparr>,
                log_op ''DUPLICATE_CASE'' w)"
    by (rule handleNewCase_duplicate, rule createCase_duplicate) (simp_all add: init chk fd)
  have first: "r_existing_case (fst (handleNewCase e u p w))
                 = Some (case_id x, case_name x, case_number x, notion_url (case_id x))"
    if "results = pre' @ x # post'" and "\<forall>z \<in> set pre'. is_placeholder z" for pre' post'
  proof -
    have "\<forall>z \<in> set pre'. \<not> is_duplicate_of p z"
      using that(2) by (auto simp: is_duplicate_of_def is_placeholder_def Let_def)
    then have "find (is_duplicate_of p) results = Some x"
      using that(1) hit by (simp add: find_skips_prefix)
    with fd have "y = x" by simp
    with run show ?thesis by simp
  qed
  from run sp first show ?thesis
    by (auto simp: result_of_def)
qed

theorem duplicate_client_is_reported_witness:
  "searchCases env_ok (pages (a_world [priya_estate])) ''Priya Sharma'' = Inr [priya_estate]
   \<and> r_status (fst (handleNewCase env_ok a_user scenario_D (a_world [priya_estate])))
       = DUPLICATE_CASE
   \<and> r_existing_case (fst (handleNewCase env_ok a_user scenario_D (a_world [priya_estate])))
       = Some (''p5'', Some ''Sharma Estate Partition'', Some ''CASE-2025-DDDDD'',
               Some ''https://notion.so/p5'')
   \<and> pages (snd (handleNewCase env_ok a_user scenario_D (a_world [priya_estate])))
       = [priya_estate]"
proof -
  have h1: "truthy (p_client_name scenario_D)"
    and h2: "3 \<le> length (the (p_client_name scenario_D))"
    and h3: "searchCases env_ok (pages (a_world [priya_estate])) (the (p_client_name scenario_D))
               = Inr [priya_estate]"
    and h4: "priya_estate \<in> set [priya_estate]"
    and h5: "\<not> is_placeholder priya_estate"
    and h6: "trim (toLowerCase (or_str (client_name priya_estate) []))
               = trim (toLowerCase (the (p_client_name scenario_D)))"
    and h7: "trim (toLowerCase (the (p_client_name scenario_D))) \<noteq> []"
    by code_simp+
  have key: "the (p_client_name scenario_D) = ''Priya Sharma''"
    and row: "case_id priya_estate = ''p5''" "case_name priya_estate = Some ''Sharma Estate Partition''"
      "case_number priya_estate = Some ''CASE-2025-DDDDD''"
      "notion_url ''p5'' = Some ''https://notion.so/p5''"
    and db: "pages (a_world [priya_estate]) = [priya_estate]"
    by code_simp+
  note inst = duplicate_client_is_reported [OF h1 h2 h3 h4 h5 h6 h7, of a_user]
  from inst have "r_existing_case (fst (handleNewCase env_ok a_user scenario_D (a_world [priya_estate])))
                   = Some (case_id priya_estate, case_name priya_estate, case_number priya_estate,
                           notion_url (case_id priya_estate))"
    by (elim conjE allE [of _ "[]"] allE [of _ "[]"]) simp
  with inst h3 key row db show ?thesis
    by simp
qed


text \<open>
  C5 as stated fails when an earlier search result meets another rule. The search for
  \<open>Priya Sharma\<close> returns the case named \<open>Priya Sharma vs State\<close> (client P. Sharma)
  before the case whose client is Priya Sharma; the first contains the client name in its
  case name, and the result carries its identifier \<open>p7\<close>, not \<open>p6\<close>.
\<close>

theorem duplicate_reports_earlier_result:
  "searchCases env_ok [estate_matter, sharma_vs_state] ''Priya Sharma''
     = Inr [sharma_vs_state, estate_matter]
   \<and> \<not> is_placeholder estate_matter
   \<and> trim (toLowerCase (or_str (client_name estate_matter) []))
       = trim (toLowerCase ''Priya Sharma'')
   \<and> r_status (fst (processSingleCase env_ok a_user scenario_D
                       (a_world [estate_matter, sharma_vs_state]))) = DUPLICATE_CASE
   \<and> r_existing_case (fst (processSingleCase env_ok a_user scenario_D
                              (a_world [estate_matter, sharma_vs_state])))
       = Some (''p7'', Some ''Priya Sharma vs State'', Some ''CASE-2025-FFFFF'',
               Some ''https://notion.so/p7'')
   \<and> case_id estate_matter = ''p6''"
  by code_simp


subsection \<open>The update branch: a lookup key that matches nothing\<close>

lemma findCase_not_found_ok:
  "findCase e db key = Inl (CaseNotFoundError k) \<Longrightarrow> init_ok e"
  by (auto simp: findCase_def searchCases_def split: if_splits)

text \<open>
  Where the draft for an unknown reference is created. The lookup key of an
  UPDATE_EXISTING payload resolves to no case (\<open>findCase\<close> raises \<open>CaseNotFoundError\<close>),
  the duplicate check of \<open>createCase\<close> finds no stored case that resembles the placeholder
  name, and the store accepts the new row. Then the update branch returns
  CREATED_AS_DRAFT for a new row named \<open>Unknown Case: \<close> followed by the key, with status
  Draft and the summary taken from the outcome, else from the raw notes; and when the
  append to the page succeeds, the three missing fields are recorded in the row's history,
  behind the warning sign.
\<close>

lemma unknown_lookup_creates_draft:
  assumes "or_else (p_lookup_key p) (p_case_name p) = Some key"
    and "findCase e (pages w) key = Inl (CaseNotFoundError key)"
    and "checkDuplicateCase e (pages w) (draftData_for p key) = None"
    and "create_ok e"
  shows "r_status (fst (handleExistingCase e u p w)) = CREATED_AS_DRAFT
         \<and> r_case_name (fst (handleExistingCase e u p w)) = Some (''Unknown Case: '' @ key)
         \<and> r_is_draft (fst (handleExistingCase e u p w)) = Some True
         \<and> (\<exists>page. pages (snd (handleExistingCase e u p w)) = pages w @ [page]
                    \<and> case_id page = new_page_id e
                    \<and> case_name page = Some (''Unknown Case: '' @ key)
                    \<and> status page = Some status_DRAFT
                    \<and> summary page = (if truthy (or_else (p_outcome p) (p_raw_notes p))
                                       then or_else (p_outcome p) (p_raw_notes p) else None))
         \<and> (append_ok e \<longrightarrow>
              (new_page_id e, WarningSign,
               ''Missing information: case_verification, client_name, client_email'')
              \<in> set (history (snd (handleExistingCase e u p w))))"
proof -
  have init: "init_ok e"
    using findCase_not_found_ok [OF assms(2)] .
  let ?w0 = "log_op ''CASE_NOT_FOUND'' w"
  let ?d = "draftData_for p key"
  have dup: "checkDuplicateCase e (pages ?w0) ?d = None"
    using assms(3) by simp
  have draft: "nonempty (p_missing_fields ?d)" "p_next_hearing_date ?d = None"
    "p_case_number ?d = None" "p_case_name ?d = Some (''Unknown Case: '' @ key)"
    "p_case_summary ?d = or_else (p_outcome p) (p_raw_notes p)"
    "list_or_empty (p_missing_fields ?d) = [''case_verification'', ''client_name'', ''client_email'']"
    by (simp_all add: draftData_for_def nonempty_def list_or_empty_def)
  have cr: "\<exists>cr w1 page. createCase e u ?d ?w0 = (Inr cr, w1)
              \<and> pages w1 = pages w @ [page]
              \<and> case_id page = new_page_id e
              \<and> case_name page = Some (''Unknown Case: '' @ key)
              \<and> status page = Some status_DRAFT
              \<and> summary page = (if truthy (or_else (p_outcome p) (p_raw_notes p))
                                 then or_else (p_outcome p) (p_raw_notes p) else None)
              \<and> (append_ok e \<longrightarrow>
                    (new_page_id e, WarningSign,
                     ''Missing information: case_verification, client_name, client_email'')
                    \<in> set (history w1))"
    using init dup assms(4) draft
    by (simp add: createCase_def Let_def new_page_def truthy_def or_str_def addHistoryEntry_def
                  log_op_def)
  then obtain cr w1 page where
    run: "createCase e u ?d ?w0 = (Inr cr, w1)" and pg: "pages w1 = pages w @ [page]"
    and page: "case_id page = new_page_id e" "case_name page = Some (''Unknown Case: '' @ key)"
      "status page = Some status_DRAFT"
      "summary page = (if truthy (or_else (p_outcome p) (p_raw_notes p))
                       then or_else (p_outcome p) (p_raw_notes p) else None)"
    and hist: "append_ok e \<longrightarrow>
                 (new_page_id e, WarningSign,
                  ''Missing information: case_verification, client_name, client_email'')
                 \<in> set (history w1)"
    by blast
  have res: "handleExistingCase e u p w =
               ((result_of CREATED_AS_DRAFT (Some (''Unknown Case: '' @ key)))
                  \<lparr> r_case_id := Some (cr_id cr),
                    r_case_number := Some (cr_case_number cr),
                    r_is_draft := Some True,
                    r_actions := [''Created draft case for unknown reference''] \<rparr>,
                addHistoryEntry e (cr_id cr) WarningSign
                  (''This case was auto-created because '' @ [CHR 0x22] @ key
                   @ [CHR 0x22] @ '' was not found. Please verify and update case details.'') w1)"
    using assms(1,2) run draft(4)
    by (simp add: handleExistingCase_def locate_case_def createDraftFromUnknown_def
                  lift_located_def Let_def)
  have "set (history w1) \<subseteq> set (history (snd (handleExistingCase e u p w)))"
    by (auto simp: res addHistoryEntry_def)
  with res pg page hist show ?thesis
    by (auto simp: result_of_def)
qed


lemma unknown_lookup_creates_draft_example:
  "findCase env_ok (pages (a_world [arun_contract])) ''Sharma'' = Inl (CaseNotFoundError ''Sharma'')
   \<and> r_status (fst (handleExistingCase env_ok a_user sharma_update (a_world [arun_contract])))
       = CREATED_AS_DRAFT
   \<and> r_case_name (fst (handleExistingCase env_ok a_user sharma_update (a_world [arun_contract])))
       = Some ''Unknown Case: Sharma''"
proof -
  have h1: "or_else (p_lookup_key sharma_update) (p_case_name sharma_update) = Some ''Sharma''"
    and h2: "findCase env_ok (pages (a_world [arun_contract])) ''Sharma''
               = Inl (CaseNotFoundError ''Sharma'')"
    and h3: "checkDuplicateCase env_ok (pages (a_world [arun_contract]))
               (draftData_for sharma_update ''Sharma'') = None"
    and h4: "create_ok env_ok"
    by code_simp+
  from unknown_lookup_creates_draft [OF h1 h2 h3 h4, of a_user] h2 show ?thesis
    by simp
qed

text \<open>
  C1. Every service is healthy and the store holds one case, named \<open>Unknown Matter\<close>. The
  key \<open>Sharma\<close> of the update payload matches no case: the store search for it returns
  nothing and \<open>findCase\<close> raises \<open>CaseNotFoundError\<close>. The update branch goes on to create
  the draft \<open>Unknown Case: Sharma\<close>, and \<open>createCase\<close> runs its duplicate check on that
  placeholder name. Without the filler word \<open>case\<close> the name contains \<open>unknown\<close>, all that
  is left of the stored name without \<open>matter\<close>; the similarity is 0.85, the stored case
  counts as a duplicate and \<open>createCase\<close> throws \<open>CaseAlreadyExistsError\<close>. The create
  branch handles that error; the update branch has the catch-all only, so the result is
  ERROR and no draft is persisted.
\<close>

theorem unknown_lookup_draft_rejected_as_duplicate:
  "searchCases env_ok [unknown_matter] ''Sharma'' = Inr []
   \<and> findCase env_ok [unknown_matter] ''Sharma'' = Inl (CaseNotFoundError ''Sharma'')
   \<and> p_case_name (draftData_for sharma_update ''Sharma'') = Some ''Unknown Case: Sharma''
   \<and> normalize ''unknown matter'' = ''unknown''
   \<and> normalize ''unknown case: sharma'' = ''unknown : sharma''
   \<and> calculateSimilarity ''unknown matter'' ''unknown case: sharma'' = 85 / 100
   \<and> fst (createCase env_ok a_user (draftData_for sharma_update ''Sharma'')
             (a_world [unknown_matter])) = Inl (CaseAlreadyExistsError unknown_matter)
   \<and> r_status (fst (processSingleCase env_ok a_user sharma_update (a_world [unknown_matter])))
       = ERROR
   \<and> pages (snd (processSingleCase env_ok a_user sharma_update (a_world [unknown_matter])))
       = [unknown_matter]"
  by code_simp

subsection \<open>The update branch and the case numbers of stored cases\<close>

text \<open>
  The patch of step 3 holds the payload's case number exactly when the payload has one and
  the located case has none. No step of the update branch writes a case number: the case
  numbers of the rows that were stored before are the same afterwards, in the same order
  (a draft for an unknown reference adds a row at the end).
\<close>

lemma build_updates_case_number:
  "u_case_number (build_updates u p c)
     = (if truthy (p_case_number p) \<and> \<not> truthy (case_number c) then p_case_number p else None)"
  by (simp add: build_updates_def no_updates_def)

lemma apply_properties_case_number [simp]:
  "case_number (apply_properties e ups n page) = case_number page"
  by (simp add: apply_properties_def)

lemma updateCase_case_numbers:
  "updateCase e pageId ups w = (r, w') \<Longrightarrow>
     map case_number (pages w') = map case_number (pages w)"
  by (auto simp: updateCase_def Let_def split: sum.splits if_splits)

lemma addHearing_case_numbers:
  "addHearing e pageId h d w = (r, w') \<Longrightarrow>
     map case_number (pages w') = map case_number (pages w)"
  by (auto simp: addHearing_def Let_def split: sum.splits prod.splits if_splits
           dest!: updateCase_case_numbers)

lemma closeCase_case_numbers:
  "closeCase e pageId w = (r, w') \<Longrightarrow>
     map case_number (pages w') = map case_number (pages w)"
  by (auto simp: closeCase_def split: sum.splits prod.splits dest!: updateCase_case_numbers)

lemma bind_w_case_numbers:
  assumes "bind_w m f = (r, w')"
    and "\<And>r0 w0. m = (r0, w0) \<Longrightarrow> map case_number (pages w0) = map case_number (pages w)"
    and "\<And>x w1 r1 w2. f x w1 = (r1, w2) \<Longrightarrow>
           map case_number (pages w2) = map case_number (pages w1)"
  shows "map case_number (pages w') = map case_number (pages w)"
  using assms by (cases m) (auto simp: bind_w_def split: sum.splits)

lemma update_found_case_numbers:
  "update_found e u p c w = (r, w') \<Longrightarrow>
     map case_number (pages w') = map case_number (pages w)"
  unfolding update_found_def Let_def
  apply (erule bind_w_case_numbers)
   apply (auto simp: bind_w_def split: if_splits sum.splits prod.splits
               dest!: addHearing_case_numbers) [1]
  apply (erule bind_w_case_numbers)
   apply (auto simp: bind_w_def split: if_splits sum.splits prod.splits
               dest!: updateCase_case_numbers) [1]
  apply (erule bind_w_case_numbers)
   apply (auto simp: bind_w_def split: if_splits sum.splits prod.splits
               dest!: closeCase_case_numbers) [1]
  apply (erule bind_w_case_numbers)
   apply (auto simp: bind_w_def call_createHearingEvent_def
               split: if_splits sum.splits prod.splits cal_outcome.splits) [1]
  apply (auto simp: bind_w_def split: if_splits sum.splits prod.splits
              dest!: updateCase_case_numbers)
  done

lemma createCase_case_numbers:
  "createCase e u cd w = (r, w') \<Longrightarrow>
     \<exists>new. map case_number (pages w') = map case_number (pages w) @ new"
  using createCase_outcomes [of e u cd w] by auto

lemma createDraftFromUnknown_case_numbers:
  "createDraftFromUnknown e u p key w = (r, w') \<Longrightarrow>
     \<exists>new. map case_number (pages w') = map case_number (pages w) @ new"
  by (auto simp: createDraftFromUnknown_def Let_def split: prod.splits sum.splits
           dest!: createCase_case_numbers)

lemma locate_case_case_numbers:
  "locate_case e u p lookupKey w = (l, w') \<Longrightarrow>
     \<exists>new. map case_number (pages w') = map case_number (pages w) @ new"
  by (auto simp: locate_case_def lift_located_def Let_def
           split: option.splits sum.splits error.splits prod.splits if_splits
           dest!: createDraftFromUnknown_case_numbers)

lemma handleExistingCase_case_numbers:
  "\<exists>new. map case_number (pages (snd (handleExistingCase e u p w)))
           = map case_number (pages w) @ new"
proof -
  let ?key = "or_else (p_lookup_key p) (p_case_name p)"
  obtain l w1 where loc: "locate_case e u p ?key w = (l, w1)"
    by fastforce
  from locate_case_case_numbers [OF loc] obtain new where
    w1: "map case_number (pages w1) = map case_number (pages w) @ new"
    by blast
  show ?thesis
  proof (cases l)
    case (Found c)
    obtain r w2 where upd: "update_found e u p c w1 = (r, w2)"
      by fastforce
    from update_found_case_numbers [OF upd] w1
    have "map case_number (pages w2) = map case_number (pages w) @ new"
      by simp
    with loc Found upd show ?thesis
      by (cases r) (simp_all add: handleExistingCase_def Let_def)
  next
    case (Done r)
    with loc w1 show ?thesis
      by (simp add: handleExistingCase_def Let_def)
  next
    case (Failed err)
    with loc w1 show ?thesis
      by (simp add: handleExistingCase_def Let_def)
  qed
qed

end
